theory Spec2Isabelle
  imports
    Complex_Main
    "HOL-Library.Char_ord"
    "HOL-Library.List_Lexorder"
    "HOL-Library.Product_Lexorder"
begin

section \<open>Conventions of the embedding\<close>

text \<open>
  The development embeds the classification engine of \<^verbatim>\<open>python_common/analysis.py\<close> and
  the model construction of \<^verbatim>\<open>python_common/taxonomy.py\<close>.

  \<^item> A Python \<^verbatim>\<open>str\<close> is a \<open>string\<close>; the texts are taken to be ASCII, so that
    \<^verbatim>\<open>str.lower\<close> only moves the letters \<open>A\<close> to \<open>Z\<close>.
  \<^item> A Python \<^verbatim>\<open>float\<close> is an exact rational number: \<^verbatim>\<open>round(x, 2)\<close> rounds the exact value
    to the nearest hundredth, ties to the even hundredth.
  \<^item> A \<^verbatim>\<open>dict\<close> is an association list in insertion order with distinct keys; assigning
    to an existing key keeps its position, as in Python.
  \<^item> A \<^verbatim>\<open>set\<close> is a list without duplicates, iterated in the order of first insertion
    (Python leaves that order open; no result below depends on it).
  \<^item> The functions of other packages that the engine calls (\<^verbatim>\<open>rapidfuzz.fuzz.partial_ratio\<close>,
    \<^verbatim>\<open>math.log\<close>, \<^verbatim>\<open>math.sqrt\<close>) are the fields of a record \<open>runtime\<close> that the
    functions take as an argument: every result holds for every such runtime.
  \<^item> Log output is not part of the state, except for the warnings of model construction.
\<close>

subsection \<open>Strings\<close>

definition is_upper :: "char \<Rightarrow> bool" where
  "is_upper c = (CHR ''A'' \<le> c \<and> c \<le> CHR ''Z'')"

definition is_lower :: "char \<Rightarrow> bool" where
  "is_lower c = (CHR ''a'' \<le> c \<and> c \<le> CHR ''z'')"

definition is_digit :: "char \<Rightarrow> bool" where
  "is_digit c = (CHR ''0'' \<le> c \<and> c \<le> CHR ''9'')"

text \<open>The character class \<^verbatim>\<open>[A-Za-z0-9_]\<close> of \<^verbatim>\<open>TOKEN_PATTERN\<close>.\<close>

definition is_word_char :: "char \<Rightarrow> bool" where
  "is_word_char c = (is_upper c \<or> is_lower c \<or> is_digit c \<or> c = CHR ''_'')"

definition ascii_uppercase :: string where
  "ascii_uppercase = ''ABCDEFGHIJKLMNOPQRSTUVWXYZ''"

definition ascii_lowercase :: string where
  "ascii_lowercase = ''abcdefghijklmnopqrstuvwxyz''"

definition lower_char :: "char \<Rightarrow> char" where
  "lower_char c =
     (case map_of (zip ascii_uppercase ascii_lowercase) c of None \<Rightarrow> c | Some d \<Rightarrow> d)"

definition lower :: "string \<Rightarrow> string" where
  "lower s = map lower_char s"

text \<open>\<^verbatim>\<open>str.strip()\<close>: the whitespace characters of Python below code point 256.\<close>

definition is_space :: "char \<Rightarrow> bool" where
  "is_space c = (let n = (of_char c :: nat) in
     (9 \<le> n \<and> n \<le> 13) \<or> (28 \<le> n \<and> n \<le> 32) \<or> n = 133 \<or> n = 160)"

definition strip :: "string \<Rightarrow> string" where
  "strip s = rev (dropWhile is_space (rev (dropWhile is_space s)))"

text \<open>\<^verbatim>\<open>needle in haystack\<close> for strings.\<close>

fun starts_with :: "'a list \<Rightarrow> 'a list \<Rightarrow> bool" where
  "starts_with [] ys = True"
| "starts_with (x # xs) [] = False"
| "starts_with (x # xs) (y # ys) = (x = y \<and> starts_with xs ys)"

fun contains :: "'a list \<Rightarrow> 'a list \<Rightarrow> bool" where
  "contains needle [] = (needle = [])"
| "contains needle (y # ys) = (starts_with needle (y # ys) \<or> contains needle ys)"

text \<open>\<^verbatim>\<open>sep.join(parts)\<close>.\<close>

fun join :: "string \<Rightarrow> string list \<Rightarrow> string" where
  "join sep [] = []"
| "join sep [x] = x"
| "join sep (x # y # ys) = x @ sep @ join sep (y # ys)"

text \<open>\<^verbatim>\<open>s.split(c)\<close> for a separator of one character.\<close>

fun split_on :: "char \<Rightarrow> string \<Rightarrow> string list" where
  "split_on c [] = [[]]"
| "split_on c (x # xs) =
     (if x = c then [] # split_on c xs
      else (case split_on c xs of [] \<Rightarrow> [[x]] | w # ws \<Rightarrow> (x # w) # ws))"

text \<open>
  \<^verbatim>\<open>TOKEN_PATTERN.findall(text)\<close>: the maximal runs of word characters, left to right.
  \<open>cur\<close> is the run being read, reversed.
\<close>

fun findall_tokens :: "string \<Rightarrow> string \<Rightarrow> string list" where
  "findall_tokens cur [] = (if cur = [] then [] else [rev cur])"
| "findall_tokens cur (c # cs) =
     (if is_word_char c then findall_tokens (c # cur) cs
      else if cur = [] then findall_tokens [] cs
      else rev cur # findall_tokens [] cs)"

definition raw_tokens :: "string \<Rightarrow> string list" where
  "raw_tokens text = map lower (findall_tokens [] text)"

text \<open>\<^verbatim>\<open>re.fullmatch(r"[A-Za-z0-9_]+", norm)\<close>.\<close>

definition fullmatch_word :: "string \<Rightarrow> bool" where
  "fullmatch_word s = (s \<noteq> [] \<and> list_all is_word_char s)"

subsection \<open>Numbers\<close>

text \<open>Rounding to the nearest integer, ties to the even one.\<close>

definition round_half_even :: "rat \<Rightarrow> int" where
  "round_half_even y =
     (let f = \<lfloor>y\<rfloor>; d = y - of_int f
      in if d < 1 / 2 then f
         else if 1 / 2 < d then f + 1
         else if even f then f else f + 1)"

text \<open>\<^verbatim>\<open>round(x, 2)\<close> on exact values.\<close>

definition py_round2 :: "rat \<Rightarrow> rat" where
  "py_round2 x = of_int (round_half_even (x * 100)) / 100"

text \<open>\<^verbatim>\<open>str(n)\<close> for a natural number.\<close>

definition digit_char :: "nat \<Rightarrow> char" where
  "digit_char d = ''0123456789abcdef'' ! d"

function str_nat :: "nat \<Rightarrow> string" where
  "str_nat n = (if n < 10 then [digit_char n] else str_nat (n div 10) @ [digit_char (n mod 10)])"
  by pat_completeness auto
termination
  by (relation "measure id") auto

declare str_nat.simps [simp del]

text \<open>\<^verbatim>\<open>f"{x:.2f}"\<close> and \<^verbatim>\<open>f"{x:.0f}"\<close> on exact values.\<close>

definition format_2f :: "rat \<Rightarrow> string" where
  "format_2f x =
     (let r = nat \<bar>round_half_even (x * 100)\<bar>
      in (if x < 0 then ''-'' else []) @ str_nat (r div 100) @ ''.''
         @ [digit_char (r mod 100 div 10), digit_char (r mod 10)])"

definition format_0f :: "rat \<Rightarrow> string" where
  "format_0f x = (if x < 0 then ''-'' else []) @ str_nat (nat \<bar>round_half_even x\<bar>)"

text \<open>
  \<^verbatim>\<open>repr(s)\<close> of an ASCII string and \<^verbatim>\<open>repr\<close> of a list of strings, which an f-string
  applies to \<^verbatim>\<open>matched_keywords\<close>.
\<close>

definition repr_char :: "char \<Rightarrow> char \<Rightarrow> string" where
  "repr_char quote c =
     (let n = (of_char c :: nat) in
      if c = quote \<or> c = CHR 0x5C then [CHR 0x5C, c]
      else if n = 9 then [CHR 0x5C, CHR ''t'']
      else if n = 10 then [CHR 0x5C, CHR ''n'']
      else if n = 13 then [CHR 0x5C, CHR ''r'']
      else if n < 32 \<or> 127 \<le> n
        then [CHR 0x5C, CHR ''x'', digit_char (n div 16), digit_char (n mod 16)]
      else [c])"

definition repr_str :: "string \<Rightarrow> string" where
  "repr_str s =
     (let quote = (if CHR 0x27 \<in> set s \<and> CHR 0x22 \<notin> set s then CHR 0x22 else CHR 0x27)
      in [quote] @ concat (map (repr_char quote) s) @ [quote])"

definition repr_list :: "string list \<Rightarrow> string" where
  "repr_list xs = ''['' @ join '', '' (map repr_str xs) @ '']''"

subsection \<open>Dictionaries\<close>

text \<open>\<^verbatim>\<open>d[k] = v\<close>: an existing key keeps its place, a new key goes to the end.\<close>

fun dict_set :: "'k \<Rightarrow> 'v \<Rightarrow> ('k \<times> 'v) list \<Rightarrow> ('k \<times> 'v) list" where
  "dict_set k v [] = [(k, v)]"
| "dict_set k v ((k', v') # ps) =
     (if k = k' then (k, v) # ps else (k', v') # dict_set k v ps)"

text \<open>\<^verbatim>\<open>d.get(k)\<close> is \<open>map_of d k\<close>; \<^verbatim>\<open>d.get(k, default)\<close>:\<close>

definition dict_get_default :: "('k \<times> 'v) list \<Rightarrow> 'k \<Rightarrow> 'v \<Rightarrow> 'v" where
  "dict_get_default d k dflt = (case map_of d k of None \<Rightarrow> dflt | Some v \<Rightarrow> v)"

text \<open>\<^verbatim>\<open>xs[:n]\<close> for an integer \<open>n\<close> (a negative \<open>n\<close> counts from the end).\<close>

definition slice_to :: "int \<Rightarrow> 'a list \<Rightarrow> 'a list" where
  "slice_to n xs = (if 0 \<le> n then take (nat n) xs else take (length xs - nat (- n)) xs)"

section \<open>The data model\<close>

type_synonym path = "string list"

text \<open>\<^verbatim>\<open>AliasRule\<close>; \<open>rule_regex\<close> holds the pattern of the compiled expression.\<close>

record alias_rule =
  rule_alias :: string
  target_path :: path
  legacy :: bool
  rule_note :: "string option"
  rule_regex :: "string option"

text \<open>\<^verbatim>\<open>TaxonomyNode\<close>; \<open>regexes\<close> holds the patterns of the compiled expressions.\<close>

datatype taxonomy_node =
  TaxonomyNode
    (label: string)
    (node_path: path)
    (node_keywords: "string list")
    (keyword_norms: "string list")
    (regexes: "string list")
    (aliases: "string list")
    (children: "taxonomy_node list")

record taxonomy_model =
  nodes_by_path :: "(path \<times> taxonomy_node) list"
  priority_map :: "(path \<times> int) list"
  alias_rules :: "alias_rule list"
  max_depth :: int

record ticket_record =
  ticket_id :: int
  subject :: string
  description_text :: string
  category :: "string option"
  sub_category :: "string option"
  item_category :: "string option"
  created_at_utc :: "string option"
  final_category :: string
  final_sub_category :: string
  final_item_category :: string

record suggested_category =
  sc_category :: "string option"
  sc_sub_category :: "string option"
  sc_item_category :: "string option"
  sc_confidence :: rat
  sc_rationale :: string

text \<open>\<^verbatim>\<open>_MatchResult\<close>.\<close>

record match_result =
  path :: path
  confidence :: rat
  rationale :: string
  matched_keywords :: "string list"
  matched_regexes :: "string list"
  matched_alias :: "string option"
  alias_legacy :: bool
  alias_note :: "string option"
  tfidf_score :: rat
  priority_override :: "int option"

type_synonym match_map = "(path \<times> match_result) list"

text \<open>\<^verbatim>\<open>_ProximityRule\<close>: a phrase is a list of tokens, a group a list of phrases.\<close>

record proximity_rule =
  rule_path :: path
  term_groups :: "string list list list"
  window :: int
  boost :: rat
  description :: string

text \<open>The functions of \<^verbatim>\<open>rapidfuzz\<close> and \<^verbatim>\<open>math\<close> that the engine calls.\<close>

record runtime =
  partial_ratio :: "string \<Rightarrow> string \<Rightarrow> rat"
  math_log :: "rat \<Rightarrow> rat"
  math_sqrt :: "rat \<Rightarrow> rat"

text \<open>The attributes of a \<^verbatim>\<open>TicketAnalyzer\<close> that classification reads.\<close>

record analyzer =
  taxonomy :: taxonomy_model
  max_suggestions_per_ticket :: int
  tfidf_leaf_threshold :: rat
  tfidf_weight :: rat
  proximity_rules :: "proximity_rule list"
  fuzzy_terms :: "(path \<times> string list) list"

text \<open>The failures of model construction, one for each \<^verbatim>\<open>raise ValueError\<close> of \<^verbatim>\<open>taxonomy.py\<close>.\<close>

datatype config_error =
  MissingTaxonomy
| TreeNotAList
| MissingLabel
| EmptyLabel
| DepthExceeded path
| DuplicatePath path
| EmptyAlias
| MissingTarget string
| UnsupportedPathType

text \<open>The exceptions; \<open>ReError\<close> is \<^verbatim>\<open>re.error\<close> with the pattern that does not compile.\<close>

datatype error = IndexError | TypeError | ValueError config_error | ReError string

section \<open>The taxonomy model\<close>

text \<open>\<^verbatim>\<open>TaxonomyNode.iter_nodes\<close>: the node, then the nodes below each child in turn.\<close>

fun node_iter_nodes :: "taxonomy_node \<Rightarrow> taxonomy_node list" where
  "node_iter_nodes (TaxonomyNode l p ks ns rs als cs) =
     TaxonomyNode l p ks ns rs als cs # concat (map node_iter_nodes cs)"

text \<open>\<^verbatim>\<open>TaxonomyModel.iter_nodes\<close>: only the root nodes of the dictionary are walked.\<close>

definition iter_nodes :: "taxonomy_model \<Rightarrow> taxonomy_node list" where
  "iter_nodes tx =
     concat (map (\<lambda>(k, node). if length (node_path node) = 1 then node_iter_nodes node else [])
                 (nodes_by_path tx))"

definition get_node :: "taxonomy_model \<Rightarrow> path \<Rightarrow> taxonomy_node option" where
  "get_node tx p = map_of (nodes_by_path tx) p"

section \<open>The keyword matcher\<close>

text \<open>\<^verbatim>\<open>TicketAnalyzer._matches_term\<close>.\<close>

definition matches_term :: "string \<Rightarrow> string \<Rightarrow> string \<Rightarrow> string list \<Rightarrow> bool" where
  "matches_term trm nrm text_lower token_set =
     (if nrm = [] then False
      else if fullmatch_word nrm then nrm \<in> set token_set
      else contains nrm text_lower)"

text \<open>\<^verbatim>\<open>TicketAnalyzer._confidence\<close>.\<close>

definition confidence_score :: "int \<Rightarrow> int \<Rightarrow> rat" where
  "confidence_score keyword_hits depth =
     (let base = (if 3 \<le> depth then 9 / 10 else if depth = 2 then 8 / 10 else 65 / 100);
          bonus = min (5 / 100 * of_int (max 0 (keyword_hits - 1))) (9 / 100)
      in py_round2 (min (base + bonus) (95 / 100)))"

text \<open>\<^verbatim>\<open>TicketAnalyzer._build_rationale\<close>; an absent or empty alias or note adds no segment.\<close>

definition build_rationale ::
  "path \<Rightarrow> string list \<Rightarrow> string list \<Rightarrow> string option \<Rightarrow> bool \<Rightarrow> string option \<Rightarrow> string" where
  "build_rationale p mkeywords mregexes alias alias_is_legacy note_text =
     (let segments =
            (if mkeywords \<noteq> [] then [''keywords '' @ repr_list mkeywords] else [])
          @ (if mregexes \<noteq> [] then [''regex '' @ repr_list mregexes] else [])
          @ (case alias of
               None \<Rightarrow> []
             | Some a \<Rightarrow>
                 if a = [] then []
                 else [''alias '' @ [CHR 0x27] @ a @ [CHR 0x27]
                       @ (if alias_is_legacy then '' (legacy)'' else [])])
          @ (case note_text of None \<Rightarrow> [] | Some n \<Rightarrow> if n = [] then [] else [n]);
          segments' = (if segments = [] then [''taxonomy rules''] else segments)
      in ''Matched '' @ join '' > '' p @ '' via '' @ join '', '' segments')"

text \<open>
  The list \<^verbatim>\<open>matched_keywords\<close> that \<^verbatim>\<open>TicketAnalyzer._match_taxonomy\<close> collects for a node.
\<close>

definition keyword_hits :: "taxonomy_node \<Rightarrow> string \<Rightarrow> string list \<Rightarrow> string list" where
  "keyword_hits node text_lower token_set =
     map fst (filter (\<lambda>(keyword, nrm). matches_term keyword nrm text_lower token_set)
                     (zip (node_keywords node) (keyword_norms node)))"

text \<open>The body of the loop over the nodes in \<^verbatim>\<open>TicketAnalyzer._match_taxonomy\<close>.\<close>

definition match_taxonomy_step :: "string \<Rightarrow> string list \<Rightarrow> taxonomy_node \<Rightarrow> match_map \<Rightarrow> match_map" where
  "match_taxonomy_step text_lower token_set node matches =
     (let mkeywords = keyword_hits node text_lower token_set
      in if mkeywords = [] then matches
         else dict_set (node_path node)
                \<lparr>path = node_path node,
                 confidence = confidence_score (int (length mkeywords)) (int (length (node_path node))),
                 rationale = build_rationale (node_path node) mkeywords [] None False None,
                 matched_keywords = mkeywords,
                 matched_regexes = [],
                 matched_alias = None,
                 alias_legacy = False,
                 alias_note = None,
                 tfidf_score = 0,
                 priority_override = None\<rparr>
                matches)"

definition match_taxonomy :: "taxonomy_model \<Rightarrow> string \<Rightarrow> string list \<Rightarrow> match_map" where
  "match_taxonomy tx text token_set =
     fold (match_taxonomy_step (lower text) token_set) (iter_nodes tx) []"

section \<open>The proximity booster\<close>

text \<open>The local function \<^verbatim>\<open>phrases\<close> of \<^verbatim>\<open>_build_proximity_rules\<close>.\<close>

definition phrases :: "string list \<Rightarrow> string list list" where
  "phrases options = filter (\<lambda>tokens. tokens \<noteq> []) (map raw_tokens options)"

definition build_proximity_rules :: "proximity_rule list" where
  "build_proximity_rules =
     [\<lparr>rule_path = [''Hardware'', ''Peripherals'', ''Audio / Video Devices''],
       term_groups = [phrases [''teams''], phrases [''camera'']],
       window = 6, boost = 1 / 10, description = ''teams/camera proximity''\<rparr>,
      \<lparr>rule_path = [''Software'', ''Productivity'', ''MS Office / Outlook''],
       term_groups = [phrases [''outlook''], phrases [''signature'']],
       window = 6, boost = 1 / 10, description = ''outlook signature proximity''\<rparr>,
      \<lparr>rule_path = [''Remote Access'', ''VPN (CATO)''],
       term_groups = [phrases [''vpn'', ''cato''], phrases [''connect'', ''cannot'', ''failed'']],
       window = 6, boost = 1 / 10, description = ''vpn connectivity proximity''\<rparr>,
      \<lparr>rule_path = [''Computer Management'', ''Drive Mapping''],
       term_groups = [phrases [''drive''], phrases [''mapping'', ''smb'']],
       window = 6, boost = 1 / 10, description = ''drive mapping proximity''\<rparr>,
      \<lparr>rule_path = [''Computer Management'', ''Intune Policy & Configuration''],
       term_groups = [phrases [''intune''], phrases [''policy'', ''profile'', ''company portal'']],
       window = 6, boost = 1 / 10, description = ''intune policy proximity''\<rparr>]"

text \<open>\<^verbatim>\<open>TicketAnalyzer._phrase_positions\<close>.\<close>

definition phrase_positions :: "string list \<Rightarrow> string list \<Rightarrow> nat list" where
  "phrase_positions tokens phrase =
     (if phrase = [] then []
      else let w = length phrase
           in if w = 0 \<or> length tokens < w then []
              else filter (\<lambda>i. take w (drop i tokens) = phrase) [0 ..< length tokens - w + 1])"

text \<open>
  The loop that fills \<^verbatim>\<open>positions_groups\<close>: a group without any occurrence empties the
  list and leaves the loop.
\<close>

fun positions_groups_loop :: "string list \<Rightarrow> string list list list \<Rightarrow> nat list list \<Rightarrow> nat list list" where
  "positions_groups_loop tokens [] acc = acc"
| "positions_groups_loop tokens (g # gs) acc =
     (let group_positions = concat (map (phrase_positions tokens) g)
      in if group_positions = [] then []
         else positions_groups_loop tokens gs (acc @ [sort (remdups group_positions)]))"

text \<open>The search for an anchor of the first group that has every other group in its window.\<close>

definition anchor_found :: "nat list list \<Rightarrow> int \<Rightarrow> bool" where
  "anchor_found positions_groups w =
     (case positions_groups of
        [] \<Rightarrow> False
      | anchor_positions # rest \<Rightarrow>
          list_ex (\<lambda>anchor.
              list_all (\<lambda>others. list_ex (\<lambda>pos. \<bar>int anchor - int pos\<bar> \<le> w) others) rest)
            anchor_positions)"

text \<open>A rule fires when none of the \<^verbatim>\<open>continue\<close> statements of the loop body is reached.\<close>

definition rule_fires :: "analyzer \<Rightarrow> string list \<Rightarrow> proximity_rule \<Rightarrow> bool" where
  "rule_fires A tokens rule =
     (\<not> (term_groups rule = [] \<or> length (term_groups rule) < 2)
      \<and> get_node (taxonomy A) (rule_path rule) \<noteq> None
      \<and> (let positions_groups = positions_groups_loop tokens (term_groups rule) []
         in positions_groups \<noteq> [] \<and> anchor_found positions_groups (window rule)))"

definition proximity_step :: "analyzer \<Rightarrow> string list \<Rightarrow> proximity_rule \<Rightarrow> match_map \<Rightarrow> match_map" where
  "proximity_step A tokens rule mm =
     (if \<not> rule_fires A tokens rule then mm
      else case map_of mm (rule_path rule) of
             Some m \<Rightarrow>
               dict_set (rule_path rule)
                 (m\<lparr>confidence := py_round2 (min (confidence m + boost rule) (95 / 100)),
                    rationale := rationale m @ ''; '' @ description rule\<rparr>)
                 mm
           | None \<Rightarrow>
               (let depth = int (length (rule_path rule));
                    base = max (confidence_score 1 depth - 1 / 10) (1 / 2)
                in dict_set (rule_path rule)
                     \<lparr>path = rule_path rule,
                      confidence = py_round2 base,
                      rationale = ''Matched '' @ join '' > '' (rule_path rule) @ '' via ''
                                  @ description rule,
                      matched_keywords = [],
                      matched_regexes = [],
                      matched_alias = None,
                      alias_legacy = False,
                      alias_note = None,
                      tfidf_score = 0,
                      priority_override = None\<rparr>
                     mm))"

text \<open>\<^verbatim>\<open>TicketAnalyzer._apply_proximity_boosts\<close>; the updated dictionary is returned.\<close>

definition apply_proximity_boosts :: "analyzer \<Rightarrow> match_map \<Rightarrow> string list \<Rightarrow> match_map" where
  "apply_proximity_boosts A mm tokens =
     (if tokens = [] then mm else fold (proximity_step A tokens) (proximity_rules A) mm)"

section \<open>The fuzzy matcher\<close>

definition fuzzy_whitelist :: "string list" where
  "fuzzy_whitelist =
     [''anyware'', ''autodesk'', ''cato'', ''cinema4d'', ''citrix'', ''intune'', ''mimecast'',
      ''teradici'', ''unreal'', ''vray'']"

text \<open>The elements of a list in the order of their first occurrence.\<close>

definition uniq :: "'a list \<Rightarrow> 'a list" where
  "uniq xs = rev (remdups (rev xs))"

text \<open>\<^verbatim>\<open>TicketAnalyzer._build_fuzzy_terms\<close>.\<close>

definition fuzzy_candidates :: "taxonomy_node \<Rightarrow> string list" where
  "fuzzy_candidates node =
     uniq (concat (map (\<lambda>keyword. filter (\<lambda>token. token \<in> set fuzzy_whitelist)
                                         (raw_tokens (lower keyword)))
                       (node_keywords node))
           @ filter (\<lambda>token. token \<in> set fuzzy_whitelist) (raw_tokens (lower (label node))))"

definition build_fuzzy_terms :: "taxonomy_model \<Rightarrow> (path \<times> string list) list" where
  "build_fuzzy_terms tx =
     (if fuzzy_whitelist = [] then []
      else fold (\<lambda>node mapping.
                   let candidates = fuzzy_candidates node
                   in if candidates = [] then mapping
                      else dict_set (node_path node) candidates mapping)
                (iter_nodes tx) [])"

text \<open>
  The two nested loops of \<^verbatim>\<open>_apply_fuzzy_matches\<close> over the seeds and over the ticket's
  tokens. The state is \<^verbatim>\<open>(best_score, best_seed, best_token)\<close>.
\<close>

type_synonym best = "rat \<times> string option \<times> string option"

fun scan_tokens :: "runtime \<Rightarrow> string \<Rightarrow> string list \<Rightarrow> best \<Rightarrow> best" where
  "scan_tokens R seed [] b = b"
| "scan_tokens R seed (token # tokens) b =
     (if token = seed then (100, Some seed, Some token)
      else let score = partial_ratio R seed token
           in scan_tokens R seed tokens
                (if fst b < score then (score, Some seed, Some token) else b))"

fun scan_seeds :: "runtime \<Rightarrow> string list \<Rightarrow> string list \<Rightarrow> string list \<Rightarrow> best \<Rightarrow> best" where
  "scan_seeds R token_set fuzzy_tokens [] b = b"
| "scan_seeds R token_set fuzzy_tokens (seed # seeds) b =
     (if seed \<in> set token_set then (100, Some seed, Some seed)
      else let b' = scan_tokens R seed fuzzy_tokens b
           in if fst b' = 100 then b' else scan_seeds R token_set fuzzy_tokens seeds b')"

text \<open>\<^verbatim>\<open>not value\<close> for an optional string.\<close>

definition falsy :: "string option \<Rightarrow> bool" where
  "falsy v = (case v of None \<Rightarrow> True | Some s \<Rightarrow> s = [])"

text \<open>
  The part of the loop body of \<^verbatim>\<open>_apply_fuzzy_matches\<close> after the threshold test: the
  boost of an existing candidate, or a new candidate for a node without children.
\<close>

definition fuzzy_update ::
  "path \<Rightarrow> taxonomy_node \<Rightarrow> rat \<Rightarrow> string \<Rightarrow> string \<Rightarrow> match_map \<Rightarrow> match_map" where
  "fuzzy_update p node best_score best_seed best_token mm =
     (let bst = min (12 / 100) (best_score / 100 * (12 / 100));
          rationale_note = ''fuzzy '' @ best_seed @ ''->'' @ best_token @ '' ''
                           @ format_0f best_score
      in case map_of mm p of
           Some m \<Rightarrow>
             dict_set p
               (m\<lparr>confidence := py_round2 (min (confidence m + bst) (95 / 100)),
                  rationale := rationale m @ ''; '' @ rationale_note\<rparr>)
               mm
         | None \<Rightarrow>
             (if children node \<noteq> [] then mm
              else dict_set p
                     \<lparr>path = p,
                      confidence = py_round2 (min (6 / 10) (45 / 100 + bst)),
                      rationale = ''Matched '' @ join '' > '' p @ '' via '' @ rationale_note,
                      matched_keywords = [],
                      matched_regexes = [],
                      matched_alias = None,
                      alias_legacy = False,
                      alias_note = None,
                      tfidf_score = 0,
                      priority_override = None\<rparr>
                     mm))"

definition fuzzy_step ::
  "runtime \<Rightarrow> analyzer \<Rightarrow> string list \<Rightarrow> string list \<Rightarrow> path \<times> string list \<Rightarrow> match_map \<Rightarrow> match_map" where
  "fuzzy_step R A token_set fuzzy_tokens entry mm =
     (let p = fst entry; seeds = snd entry
      in if seeds = [] then mm
         else case get_node (taxonomy A) p of
                None \<Rightarrow> mm
              | Some node \<Rightarrow>
                  (let b = scan_seeds R token_set fuzzy_tokens seeds (0, None, None);
                       best_score = fst b; best_seed = fst (snd b); best_token = snd (snd b)
                   in if best_score < 80 \<or> falsy best_seed \<or> falsy best_token then mm
                      else fuzzy_update p node best_score (the best_seed) (the best_token) mm))"

text \<open>\<^verbatim>\<open>TicketAnalyzer._apply_fuzzy_matches\<close>.\<close>

definition apply_fuzzy_matches ::
  "runtime \<Rightarrow> analyzer \<Rightarrow> match_map \<Rightarrow> string list \<Rightarrow> string list \<Rightarrow> match_map" where
  "apply_fuzzy_matches R A mm tokens token_set =
     (if fuzzy_terms A = [] \<or> tokens = [] then mm
      else let fuzzy_tokens = filter (\<lambda>token. 3 \<le> length token) (uniq tokens)
           in fold (fuzzy_step R A token_set fuzzy_tokens) (fuzzy_terms A) mm)"

section \<open>The TF-IDF matcher\<close>

type_synonym vector = "(string \<times> rat) list"

text \<open>\<^verbatim>\<open>Counter(tokens)\<close>: the counts in the order of first occurrence.\<close>

definition counter :: "string list \<Rightarrow> (string \<times> nat) list" where
  "counter tokens = map (\<lambda>token. (token, count_list tokens token)) (uniq tokens)"

text \<open>\<^verbatim>\<open>TicketAnalyzer._build_tfidf_vector\<close>.\<close>

definition build_tfidf_vector :: "runtime \<Rightarrow> string list \<Rightarrow> vector \<Rightarrow> rat \<Rightarrow> vector" where
  "build_tfidf_vector R tokens idf_map default_idf =
     (if tokens = [] then []
      else let counts = counter tokens;
               total = sum_list (map snd counts)
           in if total = 0 then []
              else let weights =
                         filter (\<lambda>(token, weight). 0 < weight)
                           (map (\<lambda>(token, count).
                                   (token, of_nat count / of_nat total
                                           * dict_get_default idf_map token default_idf))
                                counts)
                   in if weights = [] then []
                      else let nrm = math_sqrt R (sum_list (map (\<lambda>(token, v). v * v) weights))
                           in if nrm = 0 then []
                              else map (\<lambda>(token, v). (token, v / nrm)) weights)"

text \<open>\<^verbatim>\<open>TicketAnalyzer._cosine_similarity\<close>.\<close>

definition cosine_similarity :: "vector \<Rightarrow> vector \<Rightarrow> rat" where
  "cosine_similarity vec_a vec_b =
     (if vec_a = [] \<or> vec_b = [] then 0
      else let a = (if length vec_b < length vec_a then vec_b else vec_a);
               b = (if length vec_b < length vec_a then vec_a else vec_b)
           in fold (\<lambda>(token, weight) total.
                      case map_of b token of
                        None \<Rightarrow> total
                      | Some other \<Rightarrow> if other \<noteq> 0 then total + weight * other else total)
                   a 0)"

record tfidf_artifacts =
  ticket_vectors :: "vector list"
  prototype_vectors :: "vector list"
  prototype_paths :: "path list"

text \<open>The text of a ticket: \<^verbatim>\<open>f"{ticket.subject or ''} {ticket.description_text or ''}"\<close>.\<close>

definition ticket_text :: "ticket_record \<Rightarrow> string" where
  "ticket_text ticket = subject ticket @ '' '' @ description_text ticket"

text \<open>
  The paths under which \<^verbatim>\<open>_build_tfidf_artifacts\<close> files the tokens of a labelled ticket:
  the labels present are appended one after the other, and each prefix that is a node of
  the taxonomy counts.
\<close>

definition labelled_paths :: "taxonomy_model \<Rightarrow> ticket_record \<Rightarrow> path list" where
  "labelled_paths tx ticket =
     (let parts1 = (if falsy (category ticket) then [] else [the (category ticket)]);
          hits1 = (if \<not> falsy (category ticket) \<and> get_node tx parts1 \<noteq> None then [parts1] else []);
          parts2 = (if falsy (sub_category ticket) then parts1
                    else parts1 @ [the (sub_category ticket)]);
          hits2 = (if \<not> falsy (sub_category ticket) \<and> get_node tx parts2 \<noteq> None
                   then [parts2] else []);
          parts3 = (if falsy (item_category ticket) then parts2
                    else parts2 @ [the (item_category ticket)]);
          hits3 = (if \<not> falsy (item_category ticket) \<and> get_node tx parts3 \<noteq> None
                   then [parts3] else [])
      in hits1 @ hits2 @ hits3)"

definition build_tokens_by_path ::
  "taxonomy_model \<Rightarrow> (ticket_record \<times> string list) list \<Rightarrow> (path \<times> string list) list" where
  "build_tokens_by_path tx docs =
     fold (\<lambda>(ticket, tokens) tbp.
             fold (\<lambda>p tbp'. dict_set p (dict_get_default tbp' p [] @ tokens) tbp')
                  (labelled_paths tx ticket) tbp)
          docs []"

definition build_doc_freq :: "string list list \<Rightarrow> (string \<times> nat) list" where
  "build_doc_freq token_docs =
     fold (\<lambda>tokens df.
             fold (\<lambda>token df'. dict_set token (dict_get_default df' token 0 + 1) df')
                  (uniq tokens) df)
          token_docs []"

definition build_prototypes ::
  "runtime \<Rightarrow> taxonomy_model \<Rightarrow> (path \<times> string list) list \<Rightarrow> vector \<Rightarrow> rat \<Rightarrow> (path \<times> vector) list" where
  "build_prototypes R tx tokens_by_path idf_map default_idf =
     fold (\<lambda>(p, node) protos.
             if children node \<noteq> [] then protos
             else let seed_tokens =
                        concat (map (\<lambda>keyword. raw_tokens (lower keyword)) (node_keywords node))
                        @ dict_get_default tokens_by_path p [];
                      v = build_tfidf_vector R seed_tokens idf_map default_idf
                  in if v = [] then protos else protos @ [(p, v)])
          (nodes_by_path tx) []"

text \<open>\<^verbatim>\<open>TicketAnalyzer._build_tfidf_artifacts\<close>.\<close>

definition build_tfidf_artifacts ::
  "runtime \<Rightarrow> taxonomy_model \<Rightarrow> ticket_record list \<Rightarrow> tfidf_artifacts option" where
  "build_tfidf_artifacts R tx tickets =
     (if tickets = [] then None
      else let corpus = map (\<lambda>ticket. lower (strip (ticket_text ticket))) tickets
           in if \<not> list_ex (\<lambda>text. text \<noteq> []) corpus then None
              else let token_docs = map raw_tokens corpus
                   in if \<not> list_ex (\<lambda>tokens. tokens \<noteq> []) token_docs then None
                      else let tokens_by_path = build_tokens_by_path tx (zip tickets token_docs);
                               doc_freq = build_doc_freq token_docs;
                               doc_count = length token_docs
                           in if doc_count = 0 \<or> doc_freq = [] then None
                              else let idf_map =
                                         map (\<lambda>(token, freq).
                                                (token, math_log R ((1 + of_nat doc_count)
                                                                   / (1 + of_nat freq)) + 1))
                                             doc_freq;
                                       default_idf = math_log R (1 + of_nat doc_count) + 1;
                                       tvs = map (\<lambda>tokens. build_tfidf_vector R tokens idf_map
                                                              default_idf) token_docs;
                                       protos = build_prototypes R tx tokens_by_path idf_map
                                                  default_idf
                                   in if protos = [] then None
                                      else Some \<lparr>ticket_vectors = tvs,
                                                 prototype_vectors = map snd protos,
                                                 prototype_paths = map fst protos\<rparr>)"

text \<open>\<^verbatim>\<open>TicketAnalyzer._compute_tfidf_scores\<close>.\<close>

definition compute_tfidf_scores ::
  "runtime \<Rightarrow> taxonomy_model \<Rightarrow> ticket_record list \<Rightarrow> (path \<times> rat) list list option" where
  "compute_tfidf_scores R tx tickets =
     (case build_tfidf_artifacts R tx tickets of
        None \<Rightarrow> None
      | Some artifacts \<Rightarrow>
          Some (map (\<lambda>ticket_vector.
                       fold (\<lambda>(p, proto_vector) score_map.
                               let v = cosine_similarity ticket_vector proto_vector
                               in if 0 < v then dict_set p v score_map else score_map)
                            (zip (prototype_paths artifacts) (prototype_vectors artifacts)) [])
                    (ticket_vectors artifacts)))"

definition tfidf_step :: "analyzer \<Rightarrow> path \<times> rat \<Rightarrow> match_map \<Rightarrow> match_map" where
  "tfidf_step A entry mm =
     (let p = fst entry; score = snd entry
      in if score \<le> 0 then mm
         else case get_node (taxonomy A) p of
                None \<Rightarrow> mm
              | Some node \<Rightarrow>
                  (case map_of mm p of
                     Some m \<Rightarrow>
                       dict_set p
                         (m\<lparr>tfidf_score := max (tfidf_score m) score,
                            confidence := py_round2 (min (confidence m + score * tfidf_weight A)
                                                         (95 / 100)),
                            rationale := (if contains ''tf-idf'' (rationale m)
                                          then rationale m @ '' ('' @ format_2f score @ '')''
                                          else rationale m @ ''; tf-idf '' @ format_2f score)\<rparr>)
                         mm
                   | None \<Rightarrow>
                       if children node \<noteq> [] then mm
                       else if score < tfidf_leaf_threshold A then mm
                       else dict_set p
                              \<lparr>path = p,
                               confidence = py_round2 (min (1 / 2 + score * tfidf_weight A) (9 / 10)),
                               rationale = ''Matched '' @ join '' > '' p
                                           @ '' via tf-idf similarity '' @ format_2f score,
                               matched_keywords = [],
                               matched_regexes = [],
                               matched_alias = None,
                               alias_legacy = False,
                               alias_note = None,
                               tfidf_score = score,
                               priority_override = None\<rparr>
                              mm))"

text \<open>\<^verbatim>\<open>TicketAnalyzer._apply_tfidf_scores\<close>.\<close>

definition apply_tfidf_scores :: "analyzer \<Rightarrow> match_map \<Rightarrow> (path \<times> rat) list \<Rightarrow> match_map" where
  "apply_tfidf_scores A mm tfidf_scores =
     (if tfidf_scores = [] then mm else fold (tfidf_step A) tfidf_scores mm)"

section \<open>The negative-keyword demoter\<close>

text \<open>
  The assignments that each of the three guards of \<^verbatim>\<open>_apply_negative_keywords\<close> makes to a
  candidate: the confidence drops by \<open>amount\<close>, the priority override is the base priority
  plus the size of the priority table plus \<open>offset\<close>, and \<open>suffix\<close> is appended.
\<close>

definition demote :: "taxonomy_model \<Rightarrow> rat \<Rightarrow> int \<Rightarrow> string \<Rightarrow> match_result \<Rightarrow> match_result" where
  "demote tx amount offset suffix m =
     (let base_priority = dict_get_default (priority_map tx) (path m)
                            (int (length (priority_map tx)) + 1)
      in m\<lparr>confidence := py_round2 (max (confidence m - amount) (5 / 100)),
           priority_override := Some (base_priority + int (length (priority_map tx)) + offset),
           rationale := rationale m @ suffix\<rparr>)"

definition citrix_path :: path where
  "citrix_path = [''Remote Access'', ''Citrix (Legacy)'']"

definition citrix_guard :: "taxonomy_model \<Rightarrow> string list \<Rightarrow> match_map \<Rightarrow> match_map" where
  "citrix_guard tx token_set mm =
     (case map_of mm citrix_path of
        None \<Rightarrow> mm
      | Some m \<Rightarrow>
          if list_ex (\<lambda>trm. trm \<in> set token_set) [''anyware'', ''rdp'', ''cato'']
          then dict_set citrix_path
                 (demote tx (3 / 10) 10 ''; demoted due to Anyware/RDP context'' m) mm
          else mm)"

text \<open>\<^verbatim>\<open>any(topic in part.lower() for part in match.path)\<close>.\<close>

definition path_mentions :: "string \<Rightarrow> path \<Rightarrow> bool" where
  "path_mentions topic p = list_ex (\<lambda>part. contains topic (lower part)) p"

definition not_vpn_guard :: "taxonomy_model \<Rightarrow> string \<Rightarrow> match_map \<Rightarrow> match_map" where
  "not_vpn_guard tx text_lower mm =
     (if contains ''not vpn'' text_lower
      then map (\<lambda>(k, m). (k, if path_mentions ''vpn'' (path m)
                              then demote tx (45 / 100) 5 ''; reduced by 'not vpn' guard'' m
                              else m)) mm
      else mm)"

definition teams_guard :: "taxonomy_model \<Rightarrow> string \<Rightarrow> match_map \<Rightarrow> match_map" where
  "teams_guard tx text_lower mm =
     (if contains ''not a teams issue'' text_lower \<or> contains ''not a teams problem'' text_lower
      then map (\<lambda>(k, m). (k, if path_mentions ''teams'' (path m)
                              then demote tx (35 / 100) 5
                                     ''; reduced by 'not a teams issue' guard'' m
                              else m)) mm
      else mm)"

text \<open>\<^verbatim>\<open>TicketAnalyzer._apply_negative_keywords\<close>: the three guards in the order of the source.\<close>

definition apply_negative_keywords :: "analyzer \<Rightarrow> match_map \<Rightarrow> string list \<Rightarrow> string \<Rightarrow> match_map" where
  "apply_negative_keywords A mm tokens text_lower =
     (if mm = [] then mm
      else teams_guard (taxonomy A) text_lower
             (not_vpn_guard (taxonomy A) text_lower
                (citrix_guard (taxonomy A) tokens mm)))"

section \<open>Ranking and selection\<close>

type_synonym rank_key = "int \<times> int \<times> rat \<times> path"

text \<open>The local function \<^verbatim>\<open>sort_key\<close> of \<^verbatim>\<open>_sorted_matches\<close>.\<close>

definition priority_rank :: "taxonomy_model \<Rightarrow> match_result \<Rightarrow> int" where
  "priority_rank tx result =
     (case priority_override result of
        Some r \<Rightarrow> r
      | None \<Rightarrow> dict_get_default (priority_map tx) (path result)
                  (int (length (priority_map tx)) + 1))"

definition match_sort_key :: "taxonomy_model \<Rightarrow> match_result \<Rightarrow> rank_key" where
  "match_sort_key tx result =
     (priority_rank tx result, - int (length (path result)), - confidence result, path result)"

text \<open>\<^verbatim>\<open>TicketAnalyzer._sorted_matches\<close>: Python's \<^verbatim>\<open>sorted\<close> is a stable sort by the key.\<close>

definition sorted_matches :: "analyzer \<Rightarrow> match_map \<Rightarrow> match_result list" where
  "sorted_matches A matches = sort_key (match_sort_key (taxonomy A)) (map snd matches)"

text \<open>\<^verbatim>\<open>TicketAnalyzer._fallback_match\<close>.\<close>

definition fallback_target :: "taxonomy_model \<Rightarrow> path option" where
  "fallback_target tx =
     (case List.find (\<lambda>p. 2 \<le> length p \<and> p ! 0 = ''General IT'' \<and> p ! 1 = ''Questions'')
                     (map fst (nodes_by_path tx)) of
        Some p \<Rightarrow> Some (take 2 p)
      | None \<Rightarrow> List.find (\<lambda>p. length p = 1 \<and> p ! 0 = ''General IT'') (map fst (nodes_by_path tx)))"

definition fallback_match :: "analyzer \<Rightarrow> match_result option" where
  "fallback_match A =
     (case fallback_target (taxonomy A) of
        None \<Rightarrow> None
      | Some target \<Rightarrow>
          Some \<lparr>path = target,
                confidence = dict_get_default [(3, 6 / 10), (2, 55 / 100), (1, 5 / 10)]
                               (int (length target)) (45 / 100),
                rationale = ''Fallback to General IT > Questions'',
                matched_keywords = [],
                matched_regexes = [],
                matched_alias = None,
                alias_legacy = False,
                alias_note = None,
                tfidf_score = 0,
                priority_override = None\<rparr>)"

section \<open>The suggestion assembler\<close>

text \<open>The signals of one ticket, in the order of \<^verbatim>\<open>suggest_categories\<close>.\<close>

definition combined_text :: "ticket_record \<Rightarrow> string" where
  "combined_text ticket = strip (ticket_text ticket)"

definition candidate_map :: "runtime \<Rightarrow> analyzer \<Rightarrow> (path \<times> rat) list \<Rightarrow> ticket_record \<Rightarrow> match_map" where
  "candidate_map R A tfidf_map ticket =
     (let text = combined_text ticket;
          tokens = raw_tokens text;
          token_set = uniq tokens;
          mm1 = match_taxonomy (taxonomy A) text token_set;
          mm2 = apply_proximity_boosts A mm1 tokens;
          mm3 = apply_fuzzy_matches R A mm2 tokens token_set;
          mm4 = apply_tfidf_scores A mm3 tfidf_map
      in apply_negative_keywords A mm4 tokens (lower text))"

text \<open>The loop \<^verbatim>\<open>for depth in (3, 2, 1)\<close> that picks the primary match.\<close>

definition select_primary :: "match_result list \<Rightarrow> match_result option" where
  "select_primary ordered_matches =
     (case List.find (\<lambda>m. length (path m) = 3) ordered_matches of
        Some m \<Rightarrow> Some m
      | None \<Rightarrow>
          (case List.find (\<lambda>m. length (path m) = 2) ordered_matches of
             Some m \<Rightarrow> Some m
           | None \<Rightarrow> List.find (\<lambda>m. length (path m) = 1) ordered_matches))"

text \<open>
  The ordered matches after the selection: without a primary match the fallback, if there
  is one, is inserted in front. The second component is \<^verbatim>\<open>primary\<close>.
\<close>

definition ranked_matches :: "analyzer \<Rightarrow> match_map \<Rightarrow> match_result list \<times> match_result option" where
  "ranked_matches A mm =
     (let ordered_matches = sorted_matches A mm
      in case select_primary ordered_matches of
           Some m \<Rightarrow> (ordered_matches, Some m)
         | None \<Rightarrow>
             (case fallback_match A of
                Some fallback \<Rightarrow> (fallback # ordered_matches, Some fallback)
              | None \<Rightarrow> (ordered_matches, None)))"

text \<open>The matches that become suggestions: \<^verbatim>\<open>ordered_matches[: self.max_suggestions_per_ticket]\<close>.\<close>

definition emitted_matches :: "analyzer \<Rightarrow> match_map \<Rightarrow> match_result list" where
  "emitted_matches A mm = slice_to (max_suggestions_per_ticket A) (fst (ranked_matches A mm))"

definition to_suggestion :: "match_result \<Rightarrow> suggested_category" where
  "to_suggestion m =
     \<lparr>sc_category = (if 1 \<le> length (path m) then Some (path m ! 0) else None),
      sc_sub_category = (if 2 \<le> length (path m) then Some (path m ! 1) else None),
      sc_item_category = (if 3 \<le> length (path m) then Some (path m ! 2) else None),
      sc_confidence = py_round2 (confidence m),
      sc_rationale = rationale m\<rparr>"

text \<open>\<^verbatim>\<open>value or ""\<close> for an optional string.\<close>

definition or_empty :: "string option \<Rightarrow> string" where
  "or_empty v = (case v of None \<Rightarrow> [] | Some s \<Rightarrow> s)"

text \<open>
  The rest of the loop body of \<^verbatim>\<open>suggest_categories\<close>, from the candidate map on: the
  suggestion list and the ticket with its final fields. \<^verbatim>\<open>suggestion_list[0]\<close> raises
  \<^verbatim>\<open>IndexError\<close> on an empty list.
\<close>

definition assemble ::
  "analyzer \<Rightarrow> match_map \<Rightarrow> ticket_record \<Rightarrow> error + (suggested_category list \<times> ticket_record)" where
  "assemble A mm ticket =
     (let suggestion_list = map to_suggestion (emitted_matches A mm)
      in case snd (ranked_matches A mm) of
           None \<Rightarrow> Inr (suggestion_list, ticket)
         | Some primary \<Rightarrow>
             (case suggestion_list of
                [] \<Rightarrow> Inl IndexError
              | first # rest \<Rightarrow>
                  Inr (suggestion_list,
                       ticket\<lparr>final_category := or_empty (sc_category first),
                              final_sub_category := or_empty (sc_sub_category first),
                              final_item_category := or_empty (sc_item_category first)\<rparr>)))"

text \<open>\<^verbatim>\<open>tfidf_scores[index - 1]\<close>, or the empty dictionary without TF-IDF scores.\<close>

definition tfidf_map_at :: "(path \<times> rat) list list option \<Rightarrow> nat \<Rightarrow> error + (path \<times> rat) list" where
  "tfidf_map_at tfidf_scores i =
     (case tfidf_scores of
        None \<Rightarrow> Inr []
      | Some score_maps \<Rightarrow> if i < length score_maps then Inr (score_maps ! i) else Inl IndexError)"

definition classify_ticket ::
  "runtime \<Rightarrow> analyzer \<Rightarrow> (path \<times> rat) list list option \<Rightarrow> nat \<Rightarrow> ticket_record
     \<Rightarrow> error + (suggested_category list \<times> ticket_record)" where
  "classify_ticket R A tfidf_scores i ticket =
     (case tfidf_map_at tfidf_scores i of
        Inl e \<Rightarrow> Inl e
      | Inr tfidf_map \<Rightarrow> assemble A (candidate_map R A tfidf_map ticket) ticket)"

text \<open>
  The loop of \<^verbatim>\<open>suggest_categories\<close> over the tickets; \<open>i\<close> is \<^verbatim>\<open>index - 1\<close>. The
  result is the dictionary of suggestions and the tickets as the loop leaves them.
\<close>

fun suggest_loop ::
  "runtime \<Rightarrow> analyzer \<Rightarrow> (path \<times> rat) list list option \<Rightarrow> nat \<Rightarrow> ticket_record list
     \<Rightarrow> (int \<times> suggested_category list) list
     \<Rightarrow> error + ((int \<times> suggested_category list) list \<times> ticket_record list)" where
  "suggest_loop R A tfidf_scores i [] suggestions = Inr (suggestions, [])"
| "suggest_loop R A tfidf_scores i (ticket # tickets) suggestions =
     (case classify_ticket R A tfidf_scores i ticket of
        Inl e \<Rightarrow> Inl e
      | Inr (suggestion_list, ticket') \<Rightarrow>
          (case suggest_loop R A tfidf_scores (Suc i) tickets
                  (dict_set (ticket_id ticket) suggestion_list suggestions) of
             Inl e \<Rightarrow> Inl e
           | Inr (suggestions', tickets') \<Rightarrow> Inr (suggestions', ticket' # tickets')))"

text \<open>\<^verbatim>\<open>TicketAnalyzer.suggest_categories\<close>.\<close>

definition suggest_categories ::
  "runtime \<Rightarrow> analyzer \<Rightarrow> ticket_record list
     \<Rightarrow> error + ((int \<times> suggested_category list) list \<times> ticket_record list)" where
  "suggest_categories R A tickets =
     suggest_loop R A (compute_tfidf_scores R (taxonomy A) tickets) 0 tickets []"

text \<open>
  \<^verbatim>\<open>TicketAnalyzer.__init__\<close>, for the attributes that classification reads: the taxonomy,
  \<^verbatim>\<open>max_suggestions_per_ticket\<close>, \<^verbatim>\<open>tfidf_leaf_threshold\<close> and \<^verbatim>\<open>tfidf_weight\<close>.
\<close>

definition TicketAnalyzer :: "taxonomy_model \<Rightarrow> int \<Rightarrow> rat \<Rightarrow> rat \<Rightarrow> analyzer" where
  "TicketAnalyzer tx max_suggestions leaf_threshold weight =
     \<lparr>taxonomy = tx,
      max_suggestions_per_ticket = max 1 max_suggestions,
      tfidf_leaf_threshold = max 0 leaf_threshold,
      tfidf_weight = max 0 weight,
      proximity_rules = build_proximity_rules,
      fuzzy_terms = build_fuzzy_terms tx\<rparr>"

section \<open>Alias evaluation\<close>

text \<open>
  \<^verbatim>\<open>TicketAnalyzer._evaluate_aliases\<close>. \<open>re_search pattern text\<close> stands for
  \<^verbatim>\<open>re.compile(pattern, re.IGNORECASE).search(text)\<close> finding a match. For a rule that matches,
  the source calls \<^verbatim>\<open>self._confidence(1, 0, len(rule.target_path), alias=True)\<close>, which raises
  \<^verbatim>\<open>TypeError\<close> since \<^verbatim>\<open>_confidence\<close> takes keyword arguments only. No function of the
  classification calls \<^verbatim>\<open>_evaluate_aliases\<close>.
\<close>

definition alias_rule_matches ::
  "(string \<Rightarrow> string \<Rightarrow> bool) \<Rightarrow> string \<Rightarrow> string \<Rightarrow> string list \<Rightarrow> alias_rule \<Rightarrow> bool" where
  "alias_rule_matches re_search text text_lower token_set rule =
     (case rule_regex rule of
        Some pattern \<Rightarrow> re_search pattern text
      | None \<Rightarrow> matches_term (rule_alias rule) (lower (rule_alias rule)) text_lower token_set)"

definition evaluate_aliases ::
  "(string \<Rightarrow> string \<Rightarrow> bool) \<Rightarrow> analyzer \<Rightarrow> string \<Rightarrow> string \<Rightarrow> string list
     \<Rightarrow> error + match_result list" where
  "evaluate_aliases re_search A text text_lower token_set =
     (if list_ex (alias_rule_matches re_search text text_lower token_set) (alias_rules (taxonomy A))
      then Inl TypeError else Inr [])"

section \<open>Model construction\<close>

text \<open>
  The configuration is a Python dictionary. A node entry of \<^verbatim>\<open>taxonomy.tree\<close> has the keys
  \<^verbatim>\<open>label\<close> (absent, not a string, or a string), \<^verbatim>\<open>keywords\<close>, \<^verbatim>\<open>regexes\<close>, \<^verbatim>\<open>aliases\<close> and
  \<^verbatim>\<open>children\<close>.
\<close>

datatype label_value = LabelAbsent | LabelNotAString | LabelString string

datatype tree_entry =
  TreeEntry
    (entry_label: label_value)
    (entry_keywords: "string list option")
    (entry_regexes: "string list")
    (entry_aliases: "string list")
    (entry_children: "tree_entry list")

text \<open>
  A path of the configuration: a list or tuple of parts, a string with \<^verbatim>\<open>>\<close> between the
  parts, or a (truthy) value of another type.
\<close>

datatype path_value = PathSeq "string list" | PathStr string | PathOther

text \<open>An entry of \<^verbatim>\<open>taxonomy.aliases\<close>; \<open>entry_target\<close> is \<open>None\<close> when \<^verbatim>\<open>target\<close> is absent or \<^verbatim>\<open>None\<close>.\<close>

record alias_entry =
  entry_alias :: "string option"
  entry_target :: "path_value option"
  entry_legacy :: bool
  entry_note :: "string option"
  entry_regex :: bool

text \<open>
  The configuration; \<open>cfg_tree\<close> is \<open>None\<close> when \<^verbatim>\<open>tree\<close> is absent or not a list. An
  absent or empty configuration is \<open>None\<close> where a configuration is expected.
\<close>

record taxonomy_config =
  cfg_tree :: "tree_entry list option"
  cfg_aliases :: "alias_entry list"
  cfg_priority_order :: "path_value list"

text \<open>\<^verbatim>\<open>available_taxonomy\<close>: the labels that the ticketing service reports.\<close>

record metadata =
  md_categories :: "string list"
  md_subcategories :: "(string option \<times> string list) list"
  md_item_categories :: "((string option \<times> string option) \<times> string list) list"

text \<open>The calls of \<^verbatim>\<open>LOGGER.warning\<close> in \<^verbatim>\<open>build_taxonomy_model\<close> and \<^verbatim>\<open>_parse_alias_rules\<close>.\<close>

datatype warning =
  AliasUnknownPath string path
| PriorityUnknownPath path_value
| CategoryNotInMetadata string
| SubcategoryNotInMetadata string string
| ItemNotInMetadata string string string

text \<open>
  What model construction takes from elsewhere: \<^verbatim>\<open>_derive_label_keywords\<close> (the keywords of a
  label and its extra keywords), whether \<^verbatim>\<open>re.compile\<close> accepts a pattern, and
  \<^verbatim>\<open>_build_model_from_metadata\<close> for the case without configuration.
\<close>

record builder =
  derive_label_keywords :: "string \<Rightarrow> string list option \<Rightarrow> string list"
  re_compiles :: "string \<Rightarrow> bool"
  build_model_from_metadata :: "metadata \<Rightarrow> int \<Rightarrow> taxonomy_model"

text \<open>\<^verbatim>\<open>_normalise_priority_path\<close>.\<close>

definition normalise_priority_path :: "path_value \<Rightarrow> error + path" where
  "normalise_priority_path v =
     (case v of
        PathSeq parts \<Rightarrow> Inr (filter (\<lambda>part. part \<noteq> []) parts)
      | PathStr s \<Rightarrow> Inr (filter (\<lambda>part. part \<noteq> []) (map strip (split_on (CHR ''>'') s)))
      | PathOther \<Rightarrow> Inl (ValueError UnsupportedPathType))"

text \<open>The first pattern that \<^verbatim>\<open>re.compile\<close> rejects, if any.\<close>

definition first_bad_pattern :: "builder \<Rightarrow> string list \<Rightarrow> string option" where
  "first_bad_pattern B patterns = List.find (\<lambda>pattern. \<not> re_compiles B pattern) patterns"

text \<open>
  \<^verbatim>\<open>_build_node\<close>. The node enters the dictionary before its children are built and the
  children are appended to the same object afterwards; here the entry of the dictionary is
  replaced by the node with its children once they are built.
\<close>

fun build_node ::
  "builder \<Rightarrow> tree_entry \<Rightarrow> path \<Rightarrow> int \<Rightarrow> (path \<times> taxonomy_node) list \<Rightarrow> alias_rule list
     \<Rightarrow> error + (taxonomy_node \<times> (path \<times> taxonomy_node) list \<times> alias_rule list)"
and build_children ::
  "builder \<Rightarrow> tree_entry list \<Rightarrow> path \<Rightarrow> int \<Rightarrow> (path \<times> taxonomy_node) list \<Rightarrow> alias_rule list
     \<Rightarrow> error + (taxonomy_node list \<times> (path \<times> taxonomy_node) list \<times> alias_rule list)"
where
  "build_node B (TreeEntry lbl extras patterns alias_list child_entries) parent_path mx nodes rules =
     (case lbl of
        LabelAbsent \<Rightarrow> Inl (ValueError MissingLabel)
      | LabelNotAString \<Rightarrow> Inl (ValueError EmptyLabel)
      | LabelString raw_label \<Rightarrow>
          (if strip raw_label = [] then Inl (ValueError EmptyLabel)
           else if mx < int (length (parent_path @ [strip raw_label]))
             then Inl (ValueError (DepthExceeded (parent_path @ [strip raw_label])))
           else
             (case first_bad_pattern B patterns of
                Some pattern \<Rightarrow> Inl (ReError pattern)
              | None \<Rightarrow>
                  (if map_of nodes (parent_path @ [strip raw_label]) \<noteq> None
                   then Inl (ValueError (DuplicatePath (parent_path @ [strip raw_label])))
                   else
                     (let l = strip raw_label;
                          p = parent_path @ [l];
                          kws = derive_label_keywords B l extras;
                          node = TaxonomyNode l p kws (map lower kws) patterns alias_list [];
                          nodes1 = dict_set p node nodes;
                          rules1 = rules @ map (\<lambda>a. \<lparr>rule_alias = a, target_path = p,
                                                      legacy = False, rule_note = None,
                                                      rule_regex = None\<rparr>) alias_list
                      in (case build_children B child_entries p mx nodes1 rules1 of
                            Inl e \<Rightarrow> Inl e
                          | Inr (cs, nodes2, rules2) \<Rightarrow>
                              Inr (TaxonomyNode l p kws (map lower kws) patterns alias_list cs,
                                   dict_set p (TaxonomyNode l p kws (map lower kws) patterns
                                                 alias_list cs) nodes2,
                                   rules2)))))))"
| "build_children B [] parent_path mx nodes rules = Inr ([], nodes, rules)"
| "build_children B (entry # entries) parent_path mx nodes rules =
     (case build_node B entry parent_path mx nodes rules of
        Inl e \<Rightarrow> Inl e
      | Inr (child, nodes1, rules1) \<Rightarrow>
          (case build_children B entries parent_path mx nodes1 rules1 of
             Inl e \<Rightarrow> Inl e
           | Inr (cs, nodes2, rules2) \<Rightarrow> Inr (child # cs, nodes2, rules2)))"

text \<open>
  The test \<^verbatim>\<open>not target\<close> on a target that is present: an empty sequence and an empty string
  are false; \<open>PathOther\<close> stands for a true value of another type.
\<close>

definition target_is_empty :: "path_value \<Rightarrow> bool" where
  "target_is_empty v =
     (case v of PathSeq parts \<Rightarrow> parts = [] | PathStr s \<Rightarrow> s = [] | PathOther \<Rightarrow> False)"

text \<open>The body of the loop of \<^verbatim>\<open>_parse_alias_rules\<close> for one entry.\<close>

definition parse_alias_entry ::
  "builder \<Rightarrow> (path \<times> taxonomy_node) list \<Rightarrow> alias_entry \<Rightarrow> error + (alias_rule \<times> warning list)" where
  "parse_alias_entry B nodes entry =
     (let a = strip (or_empty (entry_alias entry))
      in if a = [] then Inl (ValueError EmptyAlias)
         else case entry_target entry of
                None \<Rightarrow> Inl (ValueError (MissingTarget a))
              | Some target \<Rightarrow>
                  if target_is_empty target then Inl (ValueError (MissingTarget a))
                  else
                  (case normalise_priority_path target of
                     Inl e \<Rightarrow> Inl e
                   | Inr tp \<Rightarrow>
                       let warnings = (if map_of nodes tp = None then [AliasUnknownPath a tp]
                                       else [])
                       in if entry_regex entry \<and> \<not> re_compiles B a then Inl (ReError a)
                          else Inr (\<lparr>rule_alias = a, target_path = tp,
                                     legacy = entry_legacy entry,
                                     rule_note = entry_note entry,
                                     rule_regex = (if entry_regex entry then Some a else None)\<rparr>,
                                    warnings)))"

text \<open>\<^verbatim>\<open>_parse_alias_rules\<close>: the rules are appended to \<^verbatim>\<open>alias_rules\<close>.\<close>

fun parse_alias_rules ::
  "builder \<Rightarrow> alias_entry list \<Rightarrow> (path \<times> taxonomy_node) list \<Rightarrow> alias_rule list \<Rightarrow> warning list
     \<Rightarrow> error + (alias_rule list \<times> warning list)" where
  "parse_alias_rules B [] nodes rules warnings = Inr (rules, warnings)"
| "parse_alias_rules B (entry # entries) nodes rules warnings =
     (case parse_alias_entry B nodes entry of
        Inl e \<Rightarrow> Inl e
      | Inr (rule, ws) \<Rightarrow> parse_alias_rules B entries nodes (rules @ [rule]) (warnings @ ws))"

text \<open>The loop over \<^verbatim>\<open>priority_order\<close>; \<open>i\<close> is the index of \<^verbatim>\<open>enumerate\<close>.\<close>

fun build_priority_map ::
  "path_value list \<Rightarrow> int \<Rightarrow> (path \<times> taxonomy_node) list \<Rightarrow> (path \<times> int) list \<Rightarrow> warning list
     \<Rightarrow> error + ((path \<times> int) list \<times> warning list)" where
  "build_priority_map [] i nodes pm warnings = Inr (pm, warnings)"
| "build_priority_map (entry # entries) i nodes pm warnings =
     (case normalise_priority_path entry of
        Inl e \<Rightarrow> Inl e
      | Inr p \<Rightarrow>
          if p = [] then build_priority_map entries (i + 1) nodes pm warnings
          else build_priority_map entries (i + 1) nodes (dict_set p i pm)
                 (warnings @ (if map_of nodes p = None then [PriorityUnknownPath entry] else [])))"

text \<open>The comparison of the configured nodes with the labels of the ticketing service.\<close>

definition metadata_warnings :: "metadata \<Rightarrow> (path \<times> taxonomy_node) list \<Rightarrow> warning list" where
  "metadata_warnings md nodes =
     concat (map (\<lambda>(p, node).
        if length p = 1 \<and> p ! 0 \<notin> set (md_categories md) then [CategoryNotInMetadata (p ! 0)]
        else if length p = 2 then
          (if label node \<notin> set (dict_get_default (md_subcategories md) (Some (p ! 0)) [])
           then [SubcategoryNotInMetadata (label node) (p ! 0)] else [])
        else if length p = 3 then
          (if label node \<notin> set (dict_get_default (md_item_categories md)
                                     (Some (p ! 0), Some (p ! 1)) [])
           then [ItemNotInMetadata (label node) (p ! 0) (p ! 1)] else [])
        else []) nodes)"

definition metadata_warnings_opt :: "metadata option \<Rightarrow> (path \<times> taxonomy_node) list \<Rightarrow> warning list" where
  "metadata_warnings_opt available_taxonomy nodes =
     (case available_taxonomy of None \<Rightarrow> [] | Some md \<Rightarrow> metadata_warnings md nodes)"

text \<open>\<^verbatim>\<open>build_taxonomy_model\<close>: the model and the warnings logged, or the exception raised.\<close>

definition build_taxonomy_model ::
  "builder \<Rightarrow> taxonomy_config option \<Rightarrow> metadata option \<Rightarrow> int
     \<Rightarrow> error + (taxonomy_model \<times> warning list)" where
  "build_taxonomy_model B config available_taxonomy mx =
     (case config of
        None \<Rightarrow>
          (case available_taxonomy of
             None \<Rightarrow> Inl (ValueError MissingTaxonomy)
           | Some md \<Rightarrow> Inr (build_model_from_metadata B md mx, []))
      | Some cfg \<Rightarrow>
          (case cfg_tree cfg of
             None \<Rightarrow> Inl (ValueError TreeNotAList)
           | Some tree_entries \<Rightarrow>
               (if tree_entries = [] then Inl (ValueError TreeNotAList)
                else
                  (case build_children B tree_entries [] mx [] [] of
                     Inl e \<Rightarrow> Inl e
                   | Inr (roots, nodes, rules) \<Rightarrow>
                       (case parse_alias_rules B (cfg_aliases cfg) nodes rules [] of
                          Inl e \<Rightarrow> Inl e
                        | Inr (rules', ws1) \<Rightarrow>
                            (case build_priority_map (cfg_priority_order cfg) 0 nodes [] ws1 of
                               Inl e \<Rightarrow> Inl e
                             | Inr (pm, ws2) \<Rightarrow>
                                 Inr (\<lparr>nodes_by_path = nodes, priority_map = pm,
                                       alias_rules = rules', max_depth = mx\<rparr>,
                                      ws2 @ metadata_warnings_opt available_taxonomy nodes)))))))"

section \<open>Concrete inputs\<close>

text \<open>
  A runtime for evaluating the engine on concrete tickets. Its functions are stand-ins for
  the library functions: \<open>partial_ratio\<close> scores equal strings 100 and others 0, the
  logarithm is replaced by \<open>0\<close> and the square root by \<open>1\<close>.
\<close>

definition example_runtime :: runtime where
  "example_runtime =
     \<lparr>partial_ratio = (\<lambda>a b. if a = b then 100 else 0),
      math_log = (\<lambda>x. 0),
      math_sqrt = (\<lambda>x. 1)\<rparr>"

text \<open>A node with the keywords given and their lower-case forms, without patterns or aliases.\<close>

definition plain_node :: "string \<Rightarrow> path \<Rightarrow> string list \<Rightarrow> taxonomy_node list \<Rightarrow> taxonomy_node" where
  "plain_node l p kws cs = TaxonomyNode l p kws (map lower kws) [] [] cs"

definition plain_ticket :: "int \<Rightarrow> string \<Rightarrow> string \<Rightarrow> ticket_record" where
  "plain_ticket i subj descr =
     \<lparr>ticket_id = i, subject = subj, description_text = descr, category = None,
      sub_category = None, item_category = None, created_at_utc = None,
      final_category = [], final_sub_category = [], final_item_category = []\<rparr>"

text \<open>
  The taxonomy and the ticket of \<^verbatim>\<open>test_fallback_to_general_it_questions\<close>, with the keywords
  that \<^verbatim>\<open>_derive_label_keywords\<close> gives the two labels.
\<close>

definition questions_node :: taxonomy_node where
  "questions_node =
     plain_node ''Questions'' [''General IT'', ''Questions''] [''Questions'', ''question''] []"

definition general_it_node :: taxonomy_node where
  "general_it_node =
     plain_node ''General IT'' [''General IT'']
       [''General IT'', ''General-IT'', ''GeneralIT'', ''general'', ''generals'', ''it'']
       [questions_node]"

definition helpdesk_taxonomy :: taxonomy_model where
  "helpdesk_taxonomy =
     \<lparr>nodes_by_path = [([''General IT''], general_it_node),
                       ([''General IT'', ''Questions''], questions_node)],
      priority_map = [], alias_rules = [], max_depth = 3\<rparr>"

definition misc_ticket :: ticket_record where
  "misc_ticket = plain_ticket 400 ''Misc request'' ''Please advise''"

text \<open>The suggestion that the fallback to \<^verbatim>\<open>General IT > Questions\<close> produces.\<close>

definition questions_suggestion :: suggested_category where
  "questions_suggestion =
     \<lparr>sc_category = Some ''General IT'', sc_sub_category = Some ''Questions'',
      sc_item_category = None, sc_confidence = 55 / 100,
      sc_rationale = ''Fallback to General IT > Questions''\<rparr>"

text \<open>
  \<^verbatim>\<open>pattern.search(text)\<close> for a pattern without metacharacters that was compiled with
  \<^verbatim>\<open>re.IGNORECASE\<close>: the pattern occurs in the text, letter case apart.
\<close>

definition literal_search :: "string \<Rightarrow> string \<Rightarrow> bool" where
  "literal_search pattern text = contains (lower pattern) (lower text)"

text \<open>A node with one pattern, and a ticket text that the pattern matches.\<close>

definition printers_node :: taxonomy_node where
  "printers_node =
     TaxonomyNode ''Printers'' [''Printers''] [''Printers'', ''printer'']
       [''printers'', ''printer''] [''paper jam''] [] []"

definition printers_taxonomy :: taxonomy_model where
  "printers_taxonomy =
     \<lparr>nodes_by_path = [([''Printers''], printers_node)],
      priority_map = [], alias_rules = [], max_depth = 3\<rparr>"







text \<open>
  A taxonomy with the leaf \<^verbatim>\<open>Remote Access > VPN (CATO)\<close> and a keyword candidate for that
  leaf, as \<^verbatim>\<open>_match_taxonomy\<close> builds it for a text with the token \<^verbatim>\<open>vpn\<close>.
\<close>

definition vpn_path :: path where
  "vpn_path = [''Remote Access'', ''VPN (CATO)'']"

definition vpn_node :: taxonomy_node where
  "vpn_node =
     plain_node ''VPN (CATO)'' vpn_path
       [''VPN (CATO)'', ''VPN-(CATO)'', ''VPN(CATO)'', ''vpn'', ''vpns'', ''cato'', ''catos'',
        ''vpn cato'', ''vpncato'', ''vpn-cato''] []"

definition remote_access_node :: taxonomy_node where
  "remote_access_node =
     plain_node ''Remote Access'' [''Remote Access'']
       [''Remote Access'', ''Remote-Access'', ''RemoteAccess'', ''remote'', ''remotes'', ''access'',
        ''acces''] [vpn_node]"

definition remote_taxonomy :: taxonomy_model where
  "remote_taxonomy =
     \<lparr>nodes_by_path = [([''Remote Access''], remote_access_node), (vpn_path, vpn_node)],
      priority_map = [], alias_rules = [], max_depth = 3\<rparr>"

definition vpn_candidate :: match_result where
  "vpn_candidate =
     \<lparr>path = vpn_path, confidence = 8 / 10,
      rationale = ''Matched Remote Access > VPN (CATO) via keywords ['' @ [CHR 0x27] @ ''vpn''
                  @ [CHR 0x27] @ '']'',
      matched_keywords = [''vpn''], matched_regexes = [], matched_alias = None,
      alias_legacy = False, alias_note = None, tfidf_score = 0, priority_override = None\<rparr>"

text \<open>
  A builder for evaluating model construction on concrete configurations. Its functions
  are stand-ins: the keywords of a label are the label and the extra keywords, every
  pattern compiles, and the model from metadata is empty.
\<close>

definition example_builder :: builder where
  "example_builder =
     \<lparr>derive_label_keywords = (\<lambda>l extras. l # (case extras of None \<Rightarrow> [] | Some e \<Rightarrow> e)),
      re_compiles = (\<lambda>pattern. True),
      build_model_from_metadata =
        (\<lambda>md mx. \<lparr>nodes_by_path = [], priority_map = [], alias_rules = [], max_depth = mx\<rparr>)\<rparr>"

text \<open>A tree with one node, and an alias entry whose target is not a node of the tree.\<close>

definition remote_tree :: "tree_entry list" where
  "remote_tree = [TreeEntry (LabelString ''Remote Access'') None [] [] []]"

definition tunnel_alias :: alias_entry where
  "tunnel_alias =
     \<lparr>entry_alias = Some ''tunnel'', entry_target = Some (PathStr ''Remote Access > VPN''),
      entry_legacy = True, entry_note = None, entry_regex = False\<rparr>"

section \<open>Predicates of the properties\<close>

text \<open>A confidence between 0.05 and 0.95 that is its own rounding to two decimals.\<close>

definition conf_ok :: "rat \<Rightarrow> bool" where
  "conf_ok c = (5 / 100 \<le> c \<and> c \<le> 95 / 100 \<and> py_round2 c = c)"

text \<open>At least one keyword of the node matches the ticket.\<close>

definition keyword_matches :: "taxonomy_node \<Rightarrow> string \<Rightarrow> string list \<Rightarrow> bool" where
  "keyword_matches node text_lower token_set =
     list_ex (\<lambda>(keyword, nrm). matches_term keyword nrm text_lower token_set)
             (zip (node_keywords node) (keyword_norms node))"

text \<open>
  The matching condition in the words of the specification: a keyword of the node matches
  the lower-case text or the token set, or a pattern of the node matches the raw text.
  \<open>re_search pattern text\<close> stands for the search of the compiled pattern in the text.
\<close>

definition spec_node_matches ::
  "(string \<Rightarrow> string \<Rightarrow> bool) \<Rightarrow> taxonomy_node \<Rightarrow> string \<Rightarrow> string list \<Rightarrow> bool" where
  "spec_node_matches re_search node text token_set =
     (keyword_matches node (lower text) token_set
      \<or> list_ex (\<lambda>pattern. re_search pattern text) (regexes node))"

text \<open>Every candidate of a candidate map has an admissible confidence.\<close>

definition candidates_ok :: "match_map \<Rightarrow> bool" where
  "candidates_ok mm = list_all (\<lambda>(p, m). conf_ok (confidence m)) mm"

text \<open>Every suggestion of every ticket has an admissible confidence.\<close>

definition suggestions_ok :: "(int \<times> suggested_category list) list \<Rightarrow> bool" where
  "suggestions_ok S = list_all (\<lambda>(i, sl). list_all (\<lambda>s. conf_ok (sc_confidence s)) sl) S"

text \<open>
  The list of score dictionaries, if there is one, has an entry for each of the first \<open>n\<close>
  tickets.
\<close>

definition scores_cover :: "(path \<times> rat) list list option \<Rightarrow> nat \<Rightarrow> bool" where
  "scores_cover scores n = (case scores of None \<Rightarrow> True | Some maps \<Rightarrow> n \<le> length maps)"




text \<open>
  Two ticket records agree in the fields that a ticket is built from; they may differ in
  the three final fields that the classifier writes.
\<close>

definition same_inputs :: "ticket_record \<Rightarrow> ticket_record \<Rightarrow> bool" where
  "same_inputs t t' =
     (ticket_id t = ticket_id t' \<and> subject t = subject t'
      \<and> description_text t = description_text t' \<and> category t = category t'
      \<and> sub_category t = sub_category t' \<and> item_category t = item_category t'
      \<and> created_at_utc t = created_at_utc t')"

text \<open>
  An entry of \<^verbatim>\<open>taxonomy.aliases\<close> that \<^verbatim>\<open>_parse_alias_rules\<close> accepts whatever the node tree
  is: the alias is not empty after stripping, the target is present and is a non-empty
  sequence or string, and the alias compiles if it is flagged as a regular expression.
\<close>

definition alias_entry_ok :: "builder \<Rightarrow> alias_entry \<Rightarrow> bool" where
  "alias_entry_ok B entry =
     (strip (or_empty (entry_alias entry)) \<noteq> []
      \<and> (case entry_target entry of
           None \<Rightarrow> False
         | Some target \<Rightarrow> target \<noteq> PathOther \<and> \<not> target_is_empty target)
      \<and> (entry_regex entry \<longrightarrow> re_compiles B (strip (or_empty (entry_alias entry)))))"

section \<open>Properties\<close>

subsection \<open>Rounding and dictionaries\<close>

lemma floor_rat_numeral: "\<lfloor>numeral a / numeral b :: rat\<rfloor> = numeral a div numeral b"
  by (metis floor_divide_of_int_eq of_int_numeral)

lemma round_half_even_of_int: "round_half_even (of_int k) = k"
  by (simp add: round_half_even_def)

lemma round_half_even_ge:
  assumes "of_int k \<le> y" shows "k \<le> round_half_even y"
proof -
  have "k \<le> \<lfloor>y\<rfloor>" using assms by (simp add: le_floor_iff)
  then show ?thesis by (simp add: round_half_even_def Let_def)
qed

lemma round_half_even_le:
  assumes "y \<le> of_int k" shows "round_half_even y \<le> k"
proof (cases "y = of_int k")
  case True
  then show ?thesis by (simp add: round_half_even_of_int)
next
  case False
  with assms have "y < of_int k" by simp
  then have "\<lfloor>y\<rfloor> < k" by (simp add: floor_less_iff)
  then show ?thesis by (simp add: round_half_even_def Let_def)
qed

lemma py_round2_hundredths: "py_round2 (of_int k / 100) = of_int k / 100"
  by (simp add: py_round2_def round_half_even_of_int)

lemma py_round2_idem: "py_round2 (py_round2 x) = py_round2 x"
  unfolding py_round2_def by (simp add: round_half_even_of_int)

lemma py_round2_ge:
  assumes "of_int k / 100 \<le> x" shows "of_int k / 100 \<le> py_round2 x"
proof -
  have "of_int k \<le> x * 100" using assms by (simp add: field_simps)
  then have "k \<le> round_half_even (x * 100)" by (rule round_half_even_ge)
  then show ?thesis unfolding py_round2_def by (simp add: divide_le_cancel)
qed

lemma py_round2_le:
  assumes "x \<le> of_int k / 100" shows "py_round2 x \<le> of_int k / 100"
proof -
  have "x * 100 \<le> of_int k" using assms by (simp add: field_simps)
  then have "round_half_even (x * 100) \<le> k" by (rule round_half_even_le)
  then show ?thesis unfolding py_round2_def by (simp add: divide_le_cancel)
qed

lemma conf_ok_round:
  assumes "5 / 100 \<le> x" "x \<le> 95 / 100" shows "conf_ok (py_round2 x)"
proof -
  have "of_int 5 / 100 \<le> py_round2 x" using assms(1) by (intro py_round2_ge) simp
  moreover have "py_round2 x \<le> of_int 95 / 100" using assms(2) by (intro py_round2_le) simp
  ultimately show ?thesis by (simp add: conf_ok_def py_round2_idem)
qed

lemma conf_ok_confidence_score: "conf_ok (confidence_score h d)"
  unfolding confidence_score_def Let_def
  by (rule conf_ok_round) (auto simp: min_def max_def)

lemma map_of_dict_set: "map_of (dict_set k v d) = (map_of d)(k \<mapsto> v)"
  by (induction d) (auto simp: fun_eq_iff)

lemma set_dict_set: "x \<in> set (dict_set k v d) \<Longrightarrow> x = (k, v) \<or> x \<in> set d"
  by (induction d) (auto split: if_splits)

lemma map_fst_dict_set:
  "map fst (dict_set k v d) = (if k \<in> set (map fst d) then map fst d else map fst d @ [k])"
  by (induction d) (force+)

lemma keys_dict_set: "set (map fst (dict_set k v d)) = insert k (set (map fst d))"
  by (auto simp: map_fst_dict_set)

lemma distinct_dict_set: "distinct (map fst d) \<Longrightarrow> distinct (map fst (dict_set k v d))"
  by (simp add: map_fst_dict_set)

lemma fold_invariant:
  assumes "\<And>x s. x \<in> set xs \<Longrightarrow> I s \<Longrightarrow> I (f x s)" "I s"
  shows "I (fold f xs s)"
  using assms by (induction xs arbitrary: s) auto

subsection \<open>The fallback\<close>

lemma find_exists:
  assumes "x \<in> set xs" "P x"
  shows "\<exists>y. List.find P xs = Some y \<and> P y"
  using assms by (induction xs) auto

lemma take2_nth: "2 \<le> length p \<Longrightarrow> take 2 p = [p ! 0, p ! 1]"
  by (cases p; cases "tl p") auto

lemma fallback_target_questions:
  assumes "[''General IT'', ''Questions''] \<in> set (map fst (nodes_by_path tx))"
  shows "fallback_target tx = Some [''General IT'', ''Questions'']"
proof -
  let ?P = "\<lambda>p. 2 \<le> length p \<and> p ! 0 = ''General IT'' \<and> p ! 1 = ''Questions''"
  have "?P [''General IT'', ''Questions'']" by simp
  with assms obtain y where y: "List.find ?P (map fst (nodes_by_path tx)) = Some y" "?P y"
    using find_exists[of _ _ ?P] by blast
  from y(2) have "take 2 y = [''General IT'', ''Questions'']" by (simp add: take2_nth)
  with y(1) show ?thesis by (simp add: fallback_target_def)
qed

lemma py_round2_55: "py_round2 (11 / 20) = 11 / 20"
  using py_round2_hundredths[of 55] by simp

lemma assemble_empty_questions:
  assumes "[''General IT'', ''Questions''] \<in> set (map fst (nodes_by_path tx))"
  shows "assemble (TicketAnalyzer tx k thr w) [] ticket =
         Inr ([questions_suggestion],
              ticket\<lparr>final_category := ''General IT'', final_sub_category := ''Questions'',
                     final_item_category := []\<rparr>)"
proof -
  let ?A = "TicketAnalyzer tx k thr w"
  have tx: "taxonomy ?A = tx" by (simp add: TicketAnalyzer_def)
  have fb: "fallback_match ?A =
      Some \<lparr>path = [''General IT'', ''Questions''], confidence = 55 / 100,
            rationale = ''Fallback to General IT > Questions'', matched_keywords = [],
            matched_regexes = [], matched_alias = None, alias_legacy = False,
            alias_note = None, tfidf_score = 0, priority_override = None\<rparr>"
    by (simp add: fallback_match_def tx fallback_target_questions[OF assms] dict_get_default_def)
  have rk: "ranked_matches ?A [] = ([the (fallback_match ?A)], fallback_match ?A)"
    by (simp add: ranked_matches_def sorted_matches_def select_primary_def fb)
  have mx: "1 \<le> max_suggestions_per_ticket ?A" by (simp add: TicketAnalyzer_def)
  have em: "emitted_matches ?A [] = [the (fallback_match ?A)]"
    using mx by (simp add: emitted_matches_def rk slice_to_def)
  show ?thesis
    by (simp add: assemble_def em rk fb to_suggestion_def py_round2_55 or_empty_def
        questions_suggestion_def)
qed

text \<open>
  C1 (as amended). For every ticket whose candidate map is empty after all signals, when
  the taxonomy contains the path \<^verbatim>\<open>General IT > Questions\<close>, the ticket gets exactly that path
  as its only and top suggestion, with confidence 0.55 (the fallback confidence of a path
  of depth 2), and its final fields are set to that path.
\<close>

theorem fallback_questions_suggestion:
  assumes "[''General IT'', ''Questions''] \<in> set (map fst (nodes_by_path tx))"
    and "tfidf_map_at tfidf_scores i = Inr tfidf_map"
    and "candidate_map R (TicketAnalyzer tx k thr w) tfidf_map ticket = []"
  shows "classify_ticket R (TicketAnalyzer tx k thr w) tfidf_scores i ticket =
         Inr ([questions_suggestion],
              ticket\<lparr>final_category := ''General IT'', final_sub_category := ''Questions'',
                     final_item_category := []\<rparr>)
         \<and> sc_confidence questions_suggestion = 55 / 100"
  using assms by (simp add: classify_ticket_def assemble_empty_questions questions_suggestion_def)

text \<open>The hypotheses hold for the ticket of the fallback test.\<close>

theorem fallback_questions_suggestion_witness:
  "[''General IT'', ''Questions''] \<in> set (map fst (nodes_by_path helpdesk_taxonomy))
   \<and> tfidf_map_at None 0 = Inr []
   \<and> candidate_map example_runtime (TicketAnalyzer helpdesk_taxonomy 3 (5 / 100) (35 / 100)) []
        misc_ticket = []
   \<and> classify_ticket example_runtime (TicketAnalyzer helpdesk_taxonomy 3 (5 / 100) (35 / 100))
        None 0 misc_ticket =
      Inr ([questions_suggestion],
           misc_ticket\<lparr>final_category := ''General IT'', final_sub_category := ''Questions'',
                         final_item_category := []\<rparr>)"
proof -
  have h1: "[''General IT'', ''Questions''] \<in> set (map fst (nodes_by_path helpdesk_taxonomy))"
    by (simp add: helpdesk_taxonomy_def)
  have h2: "tfidf_map_at None 0 = Inr []" by (simp add: tfidf_map_at_def)
  have h3: "candidate_map example_runtime (TicketAnalyzer helpdesk_taxonomy 3 (5 / 100) (35 / 100))
      [] misc_ticket = []"
    by code_simp
  show ?thesis
    using fallback_questions_suggestion[OF h1 h2 h3] h1 h2 h3 by simp
qed

text \<open>
  C1 as stated fails: the ticket of the fallback test has an empty candidate map, the
  taxonomy contains \<^verbatim>\<open>General IT > Questions\<close>, and the confidence of the suggestion is 0.55,
  not 0.6.
\<close>

theorem fallback_confidence_counterexample:
  "[''General IT'', ''Questions''] \<in> set (map fst (nodes_by_path helpdesk_taxonomy))
   \<and> candidate_map example_runtime (TicketAnalyzer helpdesk_taxonomy 3 (5 / 100) (35 / 100)) []
        misc_ticket = []
   \<and> suggest_categories example_runtime (TicketAnalyzer helpdesk_taxonomy 3 (5 / 100) (35 / 100))
        [misc_ticket] =
      Inr ([(400, [questions_suggestion])],
           [misc_ticket\<lparr>final_category := ''General IT'', final_sub_category := ''Questions'',
                          final_item_category := []\<rparr>])
   \<and> sc_confidence questions_suggestion \<noteq> 6 / 10"
  by code_simp

subsection \<open>The keyword matcher\<close>

lemma keyword_hits_empty_iff:
  "(keyword_hits node txt toks = []) = (\<not> keyword_matches node txt toks)"
  by (auto simp: keyword_hits_def keyword_matches_def list_ex_iff filter_empty_conv)

lemma match_taxonomy_step_map_of:
  "map_of (match_taxonomy_step txt toks node mm) p \<noteq> None \<longleftrightarrow>
   map_of mm p \<noteq> None \<or> (node_path node = p \<and> keyword_matches node txt toks)"
  by (auto simp: match_taxonomy_step_def Let_def map_of_dict_set keyword_hits_empty_iff)

lemma match_taxonomy_fold_map_of:
  "map_of (fold (match_taxonomy_step txt toks) nodes mm) p \<noteq> None \<longleftrightarrow>
   map_of mm p \<noteq> None \<or> (\<exists>node \<in> set nodes. node_path node = p \<and> keyword_matches node txt toks)"
proof (induction nodes arbitrary: mm)
  case Nil
  then show ?case by simp
next
  case (Cons n ns)
  show ?case
    unfolding fold_simps Cons.IH match_taxonomy_step_map_of by auto
qed

text \<open>
  C2 (as amended). For every ticket text, token set and path, the keyword matcher produces
  a candidate for the path if and only if a node of the taxonomy with that path has at
  least one keyword that matches the lower-case text or the token set. The patterns of the
  node are not consulted.
\<close>

theorem keyword_matcher_candidates:
  "(map_of (match_taxonomy tx text token_set) p \<noteq> None) =
   (\<exists>node \<in> set (iter_nodes tx). node_path node = p \<and> keyword_matches node (lower text) token_set)"
  unfolding match_taxonomy_def match_taxonomy_fold_map_of by simp

text \<open>A ticket that names a keyword of the node gets the candidate.\<close>

theorem keyword_matcher_candidates_witness:
  "printers_node \<in> set (iter_nodes printers_taxonomy)
   \<and> keyword_matches printers_node (lower ''Printer offline'') [''printer'', ''offline'']
   \<and> map_of (match_taxonomy printers_taxonomy ''Printer offline'' [''printer'', ''offline''])
        [''Printers''] \<noteq> None"
proof -
  have n: "printers_node \<in> set (iter_nodes printers_taxonomy)" by code_simp
  have k: "keyword_matches printers_node (lower ''Printer offline'') [''printer'', ''offline'']"
    by code_simp
  have p: "node_path printers_node = [''Printers'']" by (simp add: printers_node_def)
  show ?thesis
    using keyword_matcher_candidates[of printers_taxonomy "''Printer offline''"
        "[''printer'', ''offline'']" "[''Printers'']"] n k p by blast
qed

text \<open>
  C2 as stated fails: the pattern \<^verbatim>\<open>paper jam\<close> of the node matches the raw text, so the
  condition of the specification holds, and the matcher produces no candidate for the node.
\<close>

theorem regex_matcher_counterexample:
  "printers_node \<in> set (iter_nodes printers_taxonomy)
   \<and> raw_tokens ''Paper jam in tray 2'' = [''paper'', ''jam'', ''in'', ''tray'', ''2'']
   \<and> spec_node_matches literal_search printers_node ''Paper jam in tray 2''
        [''paper'', ''jam'', ''in'', ''tray'', ''2'']
   \<and> map_of (match_taxonomy printers_taxonomy ''Paper jam in tray 2''
                [''paper'', ''jam'', ''in'', ''tray'', ''2''])
        (node_path printers_node) = None"
  by code_simp

subsection \<open>The proximity booster\<close>

lemma phrase_positions_no_tokens: "phrase_positions [] phrase = []"
  by (simp add: phrase_positions_def Let_def)

lemma rule_fires_tokens: "rule_fires A tokens rule \<Longrightarrow> tokens \<noteq> []"
  by (cases "term_groups rule")
     (auto simp: rule_fires_def Let_def phrase_positions_no_tokens)

lemma proximity_step_other:
  "p \<noteq> rule_path rule \<Longrightarrow> map_of (proximity_step A tokens rule mm) p = map_of mm p"
  by (simp add: proximity_step_def Let_def map_of_dict_set split: option.splits)

lemma proximity_fold_other:
  "p \<notin> set (map rule_path rules) \<Longrightarrow>
   map_of (fold (proximity_step A tokens) rules mm) p = map_of mm p"
  by (induction rules arbitrary: mm) (simp_all add: proximity_step_other)

lemma proximity_fold_at:
  assumes "distinct (map rule_path rules)" "rule \<in> set rules"
  shows "map_of (fold (proximity_step A tokens) rules mm) (rule_path rule) =
         map_of (proximity_step A tokens rule mm) (rule_path rule)"
  using assms
proof (induction rules arbitrary: mm)
  case Nil
  then show ?case by simp
next
  case (Cons r rs)
  show ?case
  proof (cases "r = rule")
    case True
    with Cons.prems have "rule_path rule \<notin> set (map rule_path rs)" by auto
    with True show ?thesis by (simp add: proximity_fold_other)
  next
    case False
    with Cons.prems have in_rs: "rule \<in> set rs" and d: "distinct (map rule_path rs)"
      by auto
    from in_rs Cons.prems(1) have ne: "rule_path rule \<noteq> rule_path r"
      by (metis distinct.simps(2) image_eqI list.simps(9) set_map)
    have "map_of (fold (proximity_step A tokens) rs (proximity_step A tokens r mm)) (rule_path rule)
          = map_of (proximity_step A tokens rule (proximity_step A tokens r mm)) (rule_path rule)"
      by (rule Cons.IH[OF d in_rs])
    also have "\<dots> = map_of (proximity_step A tokens rule mm) (rule_path rule)"
      using proximity_step_other[OF ne, of A tokens mm]
      by (simp add: proximity_step_def Let_def map_of_dict_set split: option.splits)
    finally show ?thesis by simp
  qed
qed

lemma distinct_build_proximity_rules: "distinct (map rule_path build_proximity_rules)"
  by (simp add: build_proximity_rules_def)

text \<open>
  What the code does with a rule of the table that fires: a candidate of the target path
  gets the boost, capped at 0.95 and rounded to two decimals, and the description of the
  rule after its rationale; without a candidate, one is created with confidence
  \<open>max (base - 0.1) 0.5\<close> rounded to two decimals, where \<open>base\<close> is the confidence of one
  keyword hit at the depth of the path. The children of the target node are not looked at.
\<close>

lemma proximity_step_on_fire:
  assumes "rule \<in> set build_proximity_rules"
    and "rule_fires (TicketAnalyzer tx k thr w) tokens rule"
  shows "map_of (apply_proximity_boosts (TicketAnalyzer tx k thr w) mm tokens) (rule_path rule) =
         (case map_of mm (rule_path rule) of
            Some m \<Rightarrow>
              Some (m\<lparr>confidence := py_round2 (min (confidence m + boost rule) (95 / 100)),
                      rationale := rationale m @ ''; '' @ description rule\<rparr>)
          | None \<Rightarrow>
              Some \<lparr>path = rule_path rule,
                    confidence = py_round2 (max (confidence_score 1 (int (length (rule_path rule)))
                                                 - 1 / 10) (1 / 2)),
                    rationale = ''Matched '' @ join '' > '' (rule_path rule) @ '' via ''
                                @ description rule,
                    matched_keywords = [], matched_regexes = [], matched_alias = None,
                    alias_legacy = False, alias_note = None, tfidf_score = 0,
                    priority_override = None\<rparr>)"
proof -
  let ?A = "TicketAnalyzer tx k thr w"
  have rules: "proximity_rules ?A = build_proximity_rules" by (simp add: TicketAnalyzer_def)
  have "tokens \<noteq> []" using assms(2) by (rule rule_fires_tokens)
  then have "map_of (apply_proximity_boosts ?A mm tokens) (rule_path rule) =
             map_of (proximity_step ?A tokens rule mm) (rule_path rule)"
    unfolding apply_proximity_boosts_def rules
    by (simp add: proximity_fold_at[OF distinct_build_proximity_rules assms(1)])
  then show ?thesis
    using assms(2) by (simp add: proximity_step_def Let_def map_of_dict_set split: option.splits)
qed


subsection \<open>The TF-IDF matcher\<close>

lemma tfidf_step_other:
  "p \<noteq> fst e \<Longrightarrow> map_of (tfidf_step A e mm) p = map_of mm p"
  by (simp add: tfidf_step_def Let_def map_of_dict_set split: option.splits)

lemma tfidf_fold_other:
  "p \<notin> set (map fst scores) \<Longrightarrow> map_of (fold (tfidf_step A) scores mm) p = map_of mm p"
  by (induction scores arbitrary: mm) (simp_all add: tfidf_step_other)

lemma tfidf_step_at_cong:
  "map_of mm' (fst e) = map_of mm (fst e) \<Longrightarrow>
   map_of (tfidf_step A e mm') (fst e) = map_of (tfidf_step A e mm) (fst e)"
  by (simp add: tfidf_step_def Let_def map_of_dict_set split: option.splits)

lemma tfidf_fold_at:
  assumes "distinct (map fst scores)" "e \<in> set scores"
  shows "map_of (fold (tfidf_step A) scores mm) (fst e) = map_of (tfidf_step A e mm) (fst e)"
  using assms
proof (induction scores arbitrary: mm)
  case Nil
  then show ?case by simp
next
  case (Cons x xs)
  show ?case
  proof (cases "x = e")
    case True
    with Cons.prems have "fst e \<notin> set (map fst xs)" by auto
    with True show ?thesis by (simp add: tfidf_fold_other)
  next
    case False
    with Cons.prems have in_xs: "e \<in> set xs" and d: "distinct (map fst xs)" by auto
    from in_xs Cons.prems(1) have ne: "fst e \<noteq> fst x"
      by (metis distinct.simps(2) image_eqI list.simps(9) set_map)
    have "map_of (fold (tfidf_step A) xs (tfidf_step A x mm)) (fst e)
          = map_of (tfidf_step A e (tfidf_step A x mm)) (fst e)"
      by (rule Cons.IH[OF d in_xs])
    also have "\<dots> = map_of (tfidf_step A e mm) (fst e)"
      by (rule tfidf_step_at_cong) (rule tfidf_step_other[OF ne])
    finally show ?thesis by simp
  qed
qed

text \<open>
  C4 (as amended). For every ticket and every path of the score dictionary with a positive
  similarity that is a node of the taxonomy: if the path already has a candidate, its
  confidence becomes the old confidence plus similarity times \<^verbatim>\<open>tfidf_weight\<close>, capped at
  0.95 and rounded to two decimals; otherwise a new candidate is created exactly when the
  node has no children and the similarity is at least the leaf threshold, with confidence
  \<open>min (0.5 + similarity * weight) 0.9\<close> rounded to two decimals.
\<close>

theorem tfidf_score_effect:
  assumes "distinct (map fst scores)"
    and "(p, s) \<in> set scores"
    and "0 < s"
    and "get_node (taxonomy A) p = Some node"
  shows "map_of (apply_tfidf_scores A mm scores) p =
         (case map_of mm p of
            Some m \<Rightarrow>
              Some (m\<lparr>tfidf_score := max (tfidf_score m) s,
                      confidence := py_round2 (min (confidence m + s * tfidf_weight A) (95 / 100)),
                      rationale := (if contains ''tf-idf'' (rationale m)
                                    then rationale m @ '' ('' @ format_2f s @ '')''
                                    else rationale m @ ''; tf-idf '' @ format_2f s)\<rparr>)
          | None \<Rightarrow>
              if children node = [] \<and> tfidf_leaf_threshold A \<le> s
              then Some \<lparr>path = p,
                         confidence = py_round2 (min (1 / 2 + s * tfidf_weight A) (9 / 10)),
                         rationale = ''Matched '' @ join '' > '' p @ '' via tf-idf similarity ''
                                     @ format_2f s,
                         matched_keywords = [], matched_regexes = [], matched_alias = None,
                         alias_legacy = False, alias_note = None, tfidf_score = s,
                         priority_override = None\<rparr>
              else None)"
proof -
  have ne: "scores \<noteq> []" using assms(2) by auto
  have "map_of (apply_tfidf_scores A mm scores) p = map_of (tfidf_step A (p, s) mm) p"
    using tfidf_fold_at[OF assms(1) assms(2), of A mm] ne by (simp add: apply_tfidf_scores_def)
  then show ?thesis
    using assms(3,4)
    by (simp add: tfidf_step_def Let_def map_of_dict_set not_less split: option.splits)
qed

text \<open>A leaf with similarity 0.1 and no candidate gets a new candidate of confidence 0.54.\<close>

theorem tfidf_score_effect_witness:
  "distinct (map fst [([''Printers''], 1 / 10 :: rat)])
   \<and> ([''Printers''], 1 / 10) \<in> set [([''Printers''], 1 / 10 :: rat)]
   \<and> (0 :: rat) < 1 / 10
   \<and> get_node (taxonomy (TicketAnalyzer printers_taxonomy 3 (5 / 100) (35 / 100))) [''Printers'']
      = Some printers_node
   \<and> map_option confidence
        (map_of (apply_tfidf_scores (TicketAnalyzer printers_taxonomy 3 (5 / 100) (35 / 100)) []
                   [([''Printers''], 1 / 10)]) [''Printers'']) = Some (54 / 100)"
proof -
  let ?A = "TicketAnalyzer printers_taxonomy 3 (5 / 100) (35 / 100)"
  have h1: "distinct (map fst [([''Printers''], 1 / 10 :: rat)])" by simp
  have h2: "([''Printers''], 1 / 10) \<in> set [([''Printers''], 1 / 10 :: rat)]" by simp
  have h3: "(0 :: rat) < 1 / 10" by simp
  have h4: "get_node (taxonomy ?A) [''Printers''] = Some printers_node" by code_simp
  have c: "children printers_node = [] \<and> tfidf_leaf_threshold ?A \<le> 1 / 10
           \<and> py_round2 (min (1 / 2 + 1 / 10 * tfidf_weight ?A) (9 / 10)) = 54 / 100"
    by code_simp
  show ?thesis
    using tfidf_score_effect[OF h1 h2 h3 h4, of "[]"] h1 h2 h3 h4 c by simp
qed

text \<open>
  C4 as stated fails: with the similarity equal to the leaf threshold 0.05, which does not
  strictly exceed it, the leaf still gets a new candidate.
\<close>

theorem tfidf_threshold_counterexample:
  "tfidf_leaf_threshold (TicketAnalyzer printers_taxonomy 3 (5 / 100) (35 / 100)) = 5 / 100
   \<and> \<not> (tfidf_leaf_threshold (TicketAnalyzer printers_taxonomy 3 (5 / 100) (35 / 100)) < 5 / 100)
   \<and> get_node printers_taxonomy [''Printers''] = Some printers_node
   \<and> children printers_node = []
   \<and> map (\<lambda>(p, m). (p, confidence m))
        (apply_tfidf_scores (TicketAnalyzer printers_taxonomy 3 (5 / 100) (35 / 100)) []
           [([''Printers''], 5 / 100)])
      = [([''Printers''], 52 / 100)]"
  by code_simp

subsection \<open>The negative-keyword demoter\<close>

lemma map_of_map_values:
  "map_of (map (\<lambda>(k, m). (k, f m)) mm) p = map_option f (map_of mm p)"
  by (induction mm) auto

lemma map_fst_map_values: "map fst (map (\<lambda>(k, m). (k, f m)) mm) = map fst mm"
  by (induction mm) auto

lemma map_fst_dict_set_present:
  "map_of d k = Some v' \<Longrightarrow> map fst (dict_set k v d) = map fst d"
  by (induction d) (auto split: if_splits)

lemma citrix_guard_keys: "map fst (citrix_guard tx toks mm) = map fst mm"
  by (simp add: citrix_guard_def map_fst_dict_set_present split: option.splits)

lemma not_vpn_guard_keys: "map fst (not_vpn_guard tx txt mm) = map fst mm"
  by (auto simp: not_vpn_guard_def split: prod.splits)

lemma teams_guard_keys: "map fst (teams_guard tx txt mm) = map fst mm"
  by (auto simp: teams_guard_def split: prod.splits)

lemma apply_negative_keywords_keys:
  "map fst (apply_negative_keywords A mm toks txt) = map fst mm"
  by (simp add: apply_negative_keywords_def citrix_guard_keys not_vpn_guard_keys teams_guard_keys)

lemma citrix_path_no_vpn: "\<not> path_mentions ''vpn'' citrix_path"
  by code_simp

lemma citrix_guard_other:
  "p \<noteq> citrix_path \<Longrightarrow> map_of (citrix_guard tx toks mm) p = map_of mm p"
  by (simp add: citrix_guard_def map_of_dict_set split: option.splits)

lemma path_demote: "path (demote tx amount offset suffix m) = path m"
  by (simp add: demote_def Let_def)

text \<open>
  C5. For every ticket whose lower-case text contains \<^verbatim>\<open>not vpn\<close> and every candidate whose
  path mentions \<^verbatim>\<open>vpn\<close>: the demoter keeps the keys of the candidate map as they are, so the
  candidate remains in the result set; the \<^verbatim>\<open>not vpn\<close> guard reduces its confidence by 0.45
  with a floor of 0.05, sets its priority override to its base priority plus the size of
  the priority table plus 5, and appends its suffix to the rationale; and at the end of
  \<^verbatim>\<open>_apply_negative_keywords\<close> the candidate still has that priority and that suffix, and
  that confidence unless the guard for \<^verbatim>\<open>not a teams issue\<close>, which runs afterwards, also
  applies to the candidate.
\<close>

theorem not_vpn_demotion:
  assumes "contains ''not vpn'' text_lower"
    and "map_of mm p = Some m"
    and "path m = p"
    and "path_mentions ''vpn'' p"
  shows "map fst (apply_negative_keywords A mm tokens text_lower) = map fst mm
    \<and> map_of (not_vpn_guard (taxonomy A) text_lower (citrix_guard (taxonomy A) tokens mm)) p =
        Some (m\<lparr>confidence := py_round2 (max (confidence m - 45 / 100) (5 / 100)),
                priority_override :=
                  Some (dict_get_default (priority_map (taxonomy A)) p
                          (int (length (priority_map (taxonomy A))) + 1)
                        + int (length (priority_map (taxonomy A))) + 5),
                rationale := rationale m @ ''; reduced by 'not vpn' guard''\<rparr>)
    \<and> (\<exists>m'. map_of (apply_negative_keywords A mm tokens text_lower) p = Some m'
          \<and> priority_override m' =
              Some (dict_get_default (priority_map (taxonomy A)) p
                      (int (length (priority_map (taxonomy A))) + 1)
                    + int (length (priority_map (taxonomy A))) + 5)
          \<and> (\<exists>rest. rationale m' = rationale m @ ''; reduced by 'not vpn' guard'' @ rest)
          \<and> (\<not> ((contains ''not a teams issue'' text_lower
                  \<or> contains ''not a teams problem'' text_lower) \<and> path_mentions ''teams'' p)
              \<longrightarrow> confidence m' = py_round2 (max (confidence m - 45 / 100) (5 / 100))))"
proof -
  let ?tx = "taxonomy A"
  let ?v = "demote ?tx (45 / 100) 5 ''; reduced by 'not vpn' guard'' m"
  have ne: "mm \<noteq> []" using assms(2) by auto
  have pc: "p \<noteq> citrix_path" using assms(4) citrix_path_no_vpn by auto
  have c: "map_of (citrix_guard ?tx tokens mm) p = Some m"
    using assms(2) by (simp add: citrix_guard_other[OF pc])
  have v: "map_of (not_vpn_guard ?tx text_lower (citrix_guard ?tx tokens mm)) p = Some ?v"
    using assms(1,3,4) c by (simp add: not_vpn_guard_def map_of_map_values)
  have t: "map_of (apply_negative_keywords A mm tokens text_lower) p =
      Some (if (contains ''not a teams issue'' text_lower
                \<or> contains ''not a teams problem'' text_lower) \<and> path_mentions ''teams'' p
            then demote ?tx (35 / 100) 5 ''; reduced by 'not a teams issue' guard'' ?v
            else ?v)"
    using ne v assms(3)
    by (auto simp: apply_negative_keywords_def teams_guard_def map_of_map_values path_demote)
  have 1: "map fst (apply_negative_keywords A mm tokens text_lower) = map fst mm"
    by (rule apply_negative_keywords_keys)
  have 2: "map_of (not_vpn_guard ?tx text_lower (citrix_guard ?tx tokens mm)) p =
        Some (m\<lparr>confidence := py_round2 (max (confidence m - 45 / 100) (5 / 100)),
                priority_override :=
                  Some (dict_get_default (priority_map ?tx) p (int (length (priority_map ?tx)) + 1)
                        + int (length (priority_map ?tx)) + 5),
                rationale := rationale m @ ''; reduced by 'not vpn' guard''\<rparr>)"
    using v assms(3) by (simp add: demote_def Let_def)
  have 3: "\<exists>m'. map_of (apply_negative_keywords A mm tokens text_lower) p = Some m'
          \<and> priority_override m' =
              Some (dict_get_default (priority_map ?tx) p (int (length (priority_map ?tx)) + 1)
                    + int (length (priority_map ?tx)) + 5)
          \<and> (\<exists>rest. rationale m' = rationale m @ ''; reduced by 'not vpn' guard'' @ rest)
          \<and> (\<not> ((contains ''not a teams issue'' text_lower
                  \<or> contains ''not a teams problem'' text_lower) \<and> path_mentions ''teams'' p)
              \<longrightarrow> confidence m' = py_round2 (max (confidence m - 45 / 100) (5 / 100)))"
    unfolding t using assms(3) by (auto simp: demote_def Let_def)
  from 1 2 3 show ?thesis by blast
qed

text \<open>A keyword candidate for the VPN leaf drops from 0.8 to 0.35 and stays in the map.\<close>

theorem not_vpn_demotion_witness:
  "contains ''not vpn'' ''this is not vpn related''
   \<and> map_of [(vpn_path, vpn_candidate)] vpn_path = Some vpn_candidate
   \<and> path vpn_candidate = vpn_path
   \<and> path_mentions ''vpn'' vpn_path
   \<and> map fst (apply_negative_keywords (TicketAnalyzer remote_taxonomy 2 (5 / 100) (35 / 100))
                 [(vpn_path, vpn_candidate)] [''this'', ''is'', ''not'', ''vpn'', ''related'']
                 ''this is not vpn related'') = [vpn_path]
   \<and> map_option confidence
        (map_of (apply_negative_keywords (TicketAnalyzer remote_taxonomy 2 (5 / 100) (35 / 100))
                   [(vpn_path, vpn_candidate)] [''this'', ''is'', ''not'', ''vpn'', ''related'']
                   ''this is not vpn related'') vpn_path) = Some (35 / 100)"
proof -
  let ?A = "TicketAnalyzer remote_taxonomy 2 (5 / 100) (35 / 100)"
  have h1: "contains ''not vpn'' ''this is not vpn related''" by code_simp
  have h2: "map_of [(vpn_path, vpn_candidate)] vpn_path = Some vpn_candidate" by simp
  have h3: "path vpn_candidate = vpn_path" by (simp add: vpn_candidate_def)
  have h4: "path_mentions ''vpn'' vpn_path" by code_simp
  have h5: "\<not> ((contains ''not a teams issue'' ''this is not vpn related''
                  \<or> contains ''not a teams problem'' ''this is not vpn related'')
               \<and> path_mentions ''teams'' vpn_path)" by code_simp
  have c: "py_round2 (max (confidence vpn_candidate - 45 / 100) (5 / 100)) = 35 / 100"
    by code_simp
  show ?thesis
    using not_vpn_demotion[OF h1 h2 h3 h4, of ?A "[''this'', ''is'', ''not'', ''vpn'', ''related'']"]
      h1 h2 h3 h4 h5 c
    by auto
qed

subsection \<open>Alias rules and the suggestions\<close>

lemma get_node_alias_rules: "get_node (tx\<lparr>alias_rules := r\<rparr>) = get_node tx"
  by (simp add: get_node_def fun_eq_iff)

lemma iter_nodes_alias_rules: "iter_nodes (tx\<lparr>alias_rules := r\<rparr>) = iter_nodes tx"
  by (simp add: iter_nodes_def)

lemma match_taxonomy_alias_rules:
  "match_taxonomy (tx\<lparr>alias_rules := r\<rparr>) txt toks = match_taxonomy tx txt toks"
  by (simp add: match_taxonomy_def iter_nodes_alias_rules)

lemma build_fuzzy_terms_alias_rules: "build_fuzzy_terms (tx\<lparr>alias_rules := r\<rparr>) = build_fuzzy_terms tx"
  by (simp add: build_fuzzy_terms_def iter_nodes_alias_rules)

lemma TicketAnalyzer_alias_rules:
  "TicketAnalyzer (tx\<lparr>alias_rules := r\<rparr>) k thr w =
   (TicketAnalyzer tx k thr w)\<lparr>taxonomy := (taxonomy (TicketAnalyzer tx k thr w))\<lparr>alias_rules := r\<rparr>\<rparr>"
  by (simp add: TicketAnalyzer_def build_fuzzy_terms_alias_rules)

lemma proximity_step_alias_rules:
  "proximity_step (A\<lparr>taxonomy := (taxonomy A)\<lparr>alias_rules := r\<rparr>\<rparr>) tokens rule mm =
   proximity_step A tokens rule mm"
  by (simp add: proximity_step_def rule_fires_def Let_def get_node_alias_rules split: option.splits)

lemma proximity_alias_rules:
  "apply_proximity_boosts (A\<lparr>taxonomy := (taxonomy A)\<lparr>alias_rules := r\<rparr>\<rparr>) mm tokens =
   apply_proximity_boosts A mm tokens"
  by (simp add: apply_proximity_boosts_def proximity_step_alias_rules[abs_def])

lemma fuzzy_step_alias_rules:
  "fuzzy_step R (A\<lparr>taxonomy := (taxonomy A)\<lparr>alias_rules := r\<rparr>\<rparr>) ts fts e mm =
   fuzzy_step R A ts fts e mm"
  by (simp add: fuzzy_step_def Let_def get_node_alias_rules split: option.splits)

lemma fuzzy_alias_rules:
  "apply_fuzzy_matches R (A\<lparr>taxonomy := (taxonomy A)\<lparr>alias_rules := r\<rparr>\<rparr>) mm tokens ts =
   apply_fuzzy_matches R A mm tokens ts"
  by (simp add: apply_fuzzy_matches_def fuzzy_step_alias_rules[abs_def])

lemma tfidf_step_alias_rules:
  "tfidf_step (A\<lparr>taxonomy := (taxonomy A)\<lparr>alias_rules := r\<rparr>\<rparr>) e mm = tfidf_step A e mm"
  by (simp add: tfidf_step_def Let_def get_node_alias_rules split: option.splits)

lemma tfidf_alias_rules:
  "apply_tfidf_scores (A\<lparr>taxonomy := (taxonomy A)\<lparr>alias_rules := r\<rparr>\<rparr>) mm scores =
   apply_tfidf_scores A mm scores"
  by (simp add: apply_tfidf_scores_def tfidf_step_alias_rules[abs_def])

lemma demote_alias_rules: "demote (tx\<lparr>alias_rules := r\<rparr>) = demote tx"
  by (simp add: demote_def fun_eq_iff)

lemma negative_alias_rules:
  "apply_negative_keywords (A\<lparr>taxonomy := (taxonomy A)\<lparr>alias_rules := r\<rparr>\<rparr>) mm tokens txt =
   apply_negative_keywords A mm tokens txt"
  unfolding apply_negative_keywords_def citrix_guard_def not_vpn_guard_def teams_guard_def
  by (simp add: demote_alias_rules cong: if_cong option.case_cong)

lemma candidate_map_alias_rules:
  "candidate_map R (A\<lparr>taxonomy := (taxonomy A)\<lparr>alias_rules := r\<rparr>\<rparr>) tm ticket =
   candidate_map R A tm ticket"
  by (simp add: candidate_map_def match_taxonomy_alias_rules proximity_alias_rules
      fuzzy_alias_rules tfidf_alias_rules negative_alias_rules)

lemma assemble_alias_rules:
  "assemble (A\<lparr>taxonomy := (taxonomy A)\<lparr>alias_rules := r\<rparr>\<rparr>) mm ticket = assemble A mm ticket"
proof -
  let ?A' = "A\<lparr>taxonomy := (taxonomy A)\<lparr>alias_rules := r\<rparr>\<rparr>"
  have k: "match_sort_key (taxonomy A\<lparr>alias_rules := r\<rparr>) = match_sort_key (taxonomy A)"
    by (simp add: match_sort_key_def priority_rank_def fun_eq_iff split: option.splits)
  have s: "sorted_matches ?A' mm = sorted_matches A mm"
    by (simp add: sorted_matches_def k)
  have f: "fallback_match ?A' = fallback_match A"
    by (simp add: fallback_match_def fallback_target_def cong: option.case_cong)
  have r: "ranked_matches ?A' mm = ranked_matches A mm"
    by (simp add: ranked_matches_def Let_def s f cong: option.case_cong)
  have e: "emitted_matches ?A' mm = emitted_matches A mm"
    by (simp add: emitted_matches_def r)
  show ?thesis by (simp add: assemble_def Let_def r e cong: option.case_cong)
qed

lemma classify_ticket_alias_rules:
  "classify_ticket R (A\<lparr>taxonomy := (taxonomy A)\<lparr>alias_rules := r\<rparr>\<rparr>) scores i ticket =
   classify_ticket R A scores i ticket"
  by (simp add: classify_ticket_def candidate_map_alias_rules assemble_alias_rules
      split: sum.splits)

lemma suggest_loop_alias_rules:
  "suggest_loop R (A\<lparr>taxonomy := (taxonomy A)\<lparr>alias_rules := r\<rparr>\<rparr>) scores i tickets S =
   suggest_loop R A scores i tickets S"
  by (induction tickets arbitrary: i S)
     (simp_all add: classify_ticket_alias_rules split: sum.splits prod.splits)

lemma compute_tfidf_scores_alias_rules:
  "compute_tfidf_scores R (tx\<lparr>alias_rules := r\<rparr>) tickets = compute_tfidf_scores R tx tickets"
proof -
  have l: "labelled_paths (tx\<lparr>alias_rules := r\<rparr>) = labelled_paths tx"
    by (simp add: labelled_paths_def get_node_alias_rules fun_eq_iff)
  have t: "build_tokens_by_path (tx\<lparr>alias_rules := r\<rparr>) = build_tokens_by_path tx"
    by (simp add: build_tokens_by_path_def l fun_eq_iff)
  have p: "build_prototypes R (tx\<lparr>alias_rules := r\<rparr>) = build_prototypes R tx"
    by (simp add: build_prototypes_def fun_eq_iff)
  have a: "build_tfidf_artifacts R (tx\<lparr>alias_rules := r\<rparr>) tickets = build_tfidf_artifacts R tx tickets"
    by (simp add: build_tfidf_artifacts_def Let_def t p cong: if_cong)
  show ?thesis by (simp add: compute_tfidf_scores_def a)
qed

text \<open>
  C10. For every batch, runtime and taxonomy model, the result of \<^verbatim>\<open>suggest_categories\<close> (the
  suggestions and the tickets with their final fields) is the same for two models that
  differ only in their list of alias rules: no function of the scoring pipeline reads
  \<^verbatim>\<open>alias_rules\<close>, and \<^verbatim>\<open>_evaluate_aliases\<close> is not called.
\<close>

theorem suggestions_ignore_alias_rules:
  "suggest_categories R (TicketAnalyzer (tx\<lparr>alias_rules := rules\<rparr>) k thr w) tickets =
   suggest_categories R (TicketAnalyzer tx k thr w) tickets"
  unfolding TicketAnalyzer_alias_rules suggest_categories_def
  by (simp add: suggest_loop_alias_rules compute_tfidf_scores_alias_rules)

subsection \<open>Bounds of the confidences\<close>

lemma candidates_ok_dict_set:
  "candidates_ok mm \<Longrightarrow> conf_ok (confidence v) \<Longrightarrow> candidates_ok (dict_set k v mm)"
  by (auto simp: candidates_ok_def list_all_iff dest!: set_dict_set)

lemma candidates_ok_lookup:
  "candidates_ok mm \<Longrightarrow> map_of mm p = Some m \<Longrightarrow> conf_ok (confidence m)"
  by (auto simp: candidates_ok_def list_all_iff dest: map_of_SomeD)

lemma conf_ok_boost:
  "conf_ok c \<Longrightarrow> 0 \<le> b \<Longrightarrow> conf_ok (py_round2 (min (c + b) (19 / 20)))"
  using conf_ok_round[of "min (c + b) (95 / 100)"] by (auto simp: conf_ok_def min_def)

lemma conf_ok_demote:
  "conf_ok c \<Longrightarrow> 0 \<le> a \<Longrightarrow> conf_ok (py_round2 (max (c - a) (1 / 20)))"
  using conf_ok_round[of "max (c - a) (5 / 100)"] by (auto simp: conf_ok_def max_def)

lemma candidates_ok_match_taxonomy: "candidates_ok (match_taxonomy tx text token_set)"
  unfolding match_taxonomy_def
  by (rule fold_invariant)
     (auto simp: match_taxonomy_step_def Let_def candidates_ok_def
           intro!: candidates_ok_dict_set[unfolded candidates_ok_def] conf_ok_confidence_score)

lemma conf_ok_proximity_new:
  "conf_ok (py_round2 (max (confidence_score 1 d - 1 / 10) (1 / 2)))"
proof -
  have "conf_ok (confidence_score 1 d)" by (rule conf_ok_confidence_score)
  then show ?thesis by (intro conf_ok_round) (auto simp: conf_ok_def max_def)
qed

lemma candidates_ok_proximity_step:
  assumes "0 \<le> boost rule" "candidates_ok mm"
  shows "candidates_ok (proximity_step A tokens rule mm)"
proof (cases "map_of mm (rule_path rule)")
  case None
  then show ?thesis
    using assms(2)
    by (simp add: proximity_step_def Let_def candidates_ok_dict_set conf_ok_proximity_new)
next
  case (Some m)
  then have "conf_ok (confidence m)" using assms(2) by (simp add: candidates_ok_lookup)
  then have "conf_ok (py_round2 (min (confidence m + boost rule) (19 / 20)))"
    using assms(1) by (rule conf_ok_boost)
  then show ?thesis
    using assms(2) Some by (simp add: proximity_step_def Let_def candidates_ok_dict_set)
qed

lemma candidates_ok_proximity:
  assumes "\<forall>rule \<in> set (proximity_rules A). 0 \<le> boost rule" "candidates_ok mm"
  shows "candidates_ok (apply_proximity_boosts A mm tokens)"
  unfolding apply_proximity_boosts_def using assms
  by (auto intro!: fold_invariant[where I = candidates_ok] candidates_ok_proximity_step)

lemma candidates_ok_fuzzy_update:
  assumes "80 \<le> best_score" "candidates_ok mm"
  shows "candidates_ok (fuzzy_update p node best_score seed token mm)"
proof -
  let ?b = "min (12 / 100) (best_score / 100 * (12 / 100))"
  have b: "96 / 1000 \<le> ?b" "?b \<le> 12 / 100" using assms(1) by (auto simp: min_def)
  show ?thesis
  proof (cases "map_of mm p")
    case None
    have "conf_ok (py_round2 (min (6 / 10) (45 / 100 + ?b)))"
      using b by (intro conf_ok_round) (auto simp: min_def)
    then show ?thesis
      using assms(2) None by (simp add: fuzzy_update_def Let_def candidates_ok_dict_set)
  next
    case (Some m)
    then have "conf_ok (confidence m)" using assms(2) by (simp add: candidates_ok_lookup)
    then have "conf_ok (py_round2 (min (confidence m + ?b) (19 / 20)))"
      using b by (intro conf_ok_boost) auto
    then show ?thesis
      using assms(2) Some by (simp add: fuzzy_update_def Let_def candidates_ok_dict_set)
  qed
qed

lemma candidates_ok_fuzzy_step:
  "candidates_ok mm \<Longrightarrow> candidates_ok (fuzzy_step R A ts fts e mm)"
  by (auto simp: fuzzy_step_def Let_def not_less split: option.splits
           intro!: candidates_ok_fuzzy_update)

lemma candidates_ok_fuzzy:
  "candidates_ok mm \<Longrightarrow> candidates_ok (apply_fuzzy_matches R A mm tokens ts)"
  unfolding apply_fuzzy_matches_def Let_def
  by (auto intro!: fold_invariant[where I = candidates_ok] candidates_ok_fuzzy_step)

lemma candidates_ok_tfidf_step:
  assumes "0 \<le> tfidf_weight A" "candidates_ok mm"
  shows "candidates_ok (tfidf_step A e mm)"
proof (cases "snd e \<le> 0 \<or> get_node (taxonomy A) (fst e) = None")
  case True
  then show ?thesis using assms(2) by (auto simp: tfidf_step_def Let_def)
next
  case False
  then obtain node where s: "0 < snd e" and n: "get_node (taxonomy A) (fst e) = Some node"
    by auto
  have sw: "0 \<le> snd e * tfidf_weight A" using s assms(1) by simp
  show ?thesis
  proof (cases "map_of mm (fst e)")
    case None
    have "conf_ok (py_round2 (min (1 / 2 + snd e * tfidf_weight A) (9 / 10)))"
      using sw by (intro conf_ok_round) (auto simp: min_def)
    then show ?thesis
      using assms(2) None s n by (simp add: tfidf_step_def Let_def candidates_ok_dict_set)
  next
    case (Some m)
    then have "conf_ok (confidence m)" using assms(2) by (simp add: candidates_ok_lookup)
    then have "conf_ok (py_round2 (min (confidence m + snd e * tfidf_weight A) (19 / 20)))"
      using sw by (rule conf_ok_boost)
    then show ?thesis
      using assms(2) Some s n by (simp add: tfidf_step_def Let_def candidates_ok_dict_set)
  qed
qed

lemma candidates_ok_tfidf:
  assumes "0 \<le> tfidf_weight A" "candidates_ok mm"
  shows "candidates_ok (apply_tfidf_scores A mm scores)"
  unfolding apply_tfidf_scores_def using assms
  by (auto intro!: fold_invariant[where I = candidates_ok] candidates_ok_tfidf_step)

lemma conf_ok_demoted:
  "conf_ok (confidence m) \<Longrightarrow> 0 \<le> a \<Longrightarrow> conf_ok (confidence (demote tx a off suffix m))"
  by (simp add: demote_def Let_def conf_ok_demote)

lemma candidates_ok_map_values:
  assumes "candidates_ok mm" "\<And>m. conf_ok (confidence m) \<Longrightarrow> conf_ok (confidence (f m))"
  shows "candidates_ok (map (\<lambda>(k, m). (k, f m)) mm)"
  using assms by (auto simp: candidates_ok_def list_all_iff)

lemma candidates_ok_negative:
  assumes "candidates_ok mm"
  shows "candidates_ok (apply_negative_keywords A mm tokens text_lower)"
proof -
  have c: "candidates_ok (citrix_guard (taxonomy A) tokens mm)"
    using assms
    by (auto simp: citrix_guard_def split: option.splits
             intro!: candidates_ok_dict_set conf_ok_demoted dest: candidates_ok_lookup)
  have v: "candidates_ok (not_vpn_guard (taxonomy A) text_lower (citrix_guard (taxonomy A) tokens mm))"
    unfolding not_vpn_guard_def using c
    by (auto intro!: candidates_ok_map_values conf_ok_demoted)
  have t: "candidates_ok (teams_guard (taxonomy A) text_lower
             (not_vpn_guard (taxonomy A) text_lower (citrix_guard (taxonomy A) tokens mm)))"
    unfolding teams_guard_def using v
    by (auto intro!: candidates_ok_map_values conf_ok_demoted)
  show ?thesis using assms t by (simp add: apply_negative_keywords_def candidates_ok_def)
qed

lemma analyzer_weight: "0 \<le> tfidf_weight (TicketAnalyzer tx k thr w)"
  by (simp add: TicketAnalyzer_def)

lemma analyzer_boosts: "\<forall>rule \<in> set (proximity_rules (TicketAnalyzer tx k thr w)). 0 \<le> boost rule"
  by (simp add: TicketAnalyzer_def build_proximity_rules_def)

lemma analyzer_max: "1 \<le> max_suggestions_per_ticket (TicketAnalyzer tx k thr w)"
  by (simp add: TicketAnalyzer_def)

lemma candidates_ok_candidate_map:
  assumes "0 \<le> tfidf_weight A" "\<forall>rule \<in> set (proximity_rules A). 0 \<le> boost rule"
  shows "candidates_ok (candidate_map R A tfidf_map ticket)"
  unfolding candidate_map_def Let_def
  by (intro candidates_ok_negative candidates_ok_tfidf[OF assms(1)] candidates_ok_fuzzy
        candidates_ok_proximity[OF assms(2)] candidates_ok_match_taxonomy)


lemma set_slice_to: "set (slice_to n xs) \<subseteq> set xs"
  by (auto simp: slice_to_def dest: in_set_takeD)

lemma conf_ok_fallback_table:
  "conf_ok (dict_get_default [(3, 6 / 10), (2, 55 / 100), (1, 5 / 10)] (d :: int) (45 / 100))"
proof -
  have c: "conf_ok (3 / 5)" "conf_ok (11 / 20)" "conf_ok (1 / 2)" "conf_ok (9 / 20)"
    using py_round2_hundredths[of 60] py_round2_hundredths[of 55] py_round2_hundredths[of 50]
      py_round2_hundredths[of 45]
    by (simp_all add: conf_ok_def)
  show ?thesis by (simp add: dict_get_default_def c)
qed

lemma conf_ok_fallback: "fallback_match A = Some m \<Longrightarrow> conf_ok (confidence m)"
  unfolding fallback_match_def
  using conf_ok_fallback_table by (cases "fallback_target (taxonomy A)") auto

lemma set_ranked_matches:
  "m \<in> set (fst (ranked_matches A mm)) \<Longrightarrow> m \<in> snd ` set mm \<or> fallback_match A = Some m"
  by (auto simp: ranked_matches_def Let_def sorted_matches_def split: option.splits)

lemma conf_ok_emitted:
  assumes "candidates_ok mm" "m \<in> set (emitted_matches A mm)"
  shows "conf_ok (confidence m)"
proof -
  from assms(2) have "m \<in> set (fst (ranked_matches A mm))"
    unfolding emitted_matches_def by (rule set_slice_to[THEN subsetD])
  then consider "m \<in> snd ` set mm" | "fallback_match A = Some m"
    using set_ranked_matches by blast
  then show ?thesis
  proof cases
    case 1
    then show ?thesis using assms(1) by (auto simp: candidates_ok_def list_all_iff)
  next
    case 2
    then show ?thesis by (rule conf_ok_fallback)
  qed
qed

lemma conf_ok_to_suggestion:
  "conf_ok (confidence m) \<Longrightarrow> conf_ok (sc_confidence (to_suggestion m))"
  by (simp add: to_suggestion_def conf_ok_def)

lemma assemble_suggestions:
  "assemble A mm ticket = Inr (sl, t') \<Longrightarrow> sl = map to_suggestion (emitted_matches A mm)"
  by (auto simp: assemble_def Let_def split: option.splits list.splits)

lemma ranked_primary_nonempty:
  "snd (ranked_matches A mm) = Some m \<Longrightarrow> fst (ranked_matches A mm) \<noteq> []"
  by (auto simp: ranked_matches_def Let_def select_primary_def find_None_iff
           split: option.splits)

lemma slice_to_nonempty: "1 \<le> n \<Longrightarrow> xs \<noteq> [] \<Longrightarrow> slice_to n xs \<noteq> []"
  by (cases xs) (auto simp: slice_to_def take_Cons')

lemma assemble_total:
  assumes "1 \<le> max_suggestions_per_ticket A"
  shows "\<exists>sl t'. assemble A mm ticket = Inr (sl, t')"
proof (cases "snd (ranked_matches A mm)")
  case None
  then show ?thesis by (simp add: assemble_def Let_def)
next
  case (Some m)
  then have "emitted_matches A mm \<noteq> []"
    using assms by (simp add: emitted_matches_def slice_to_nonempty ranked_primary_nonempty)
  then show ?thesis using Some by (auto simp: assemble_def Let_def split: list.splits)
qed

lemma length_compute_tfidf_scores:
  "compute_tfidf_scores R tx tickets = Some maps \<Longrightarrow> length maps = length tickets"
  by (auto simp: compute_tfidf_scores_def build_tfidf_artifacts_def Let_def
           split: option.splits if_splits)

lemma tfidf_map_at_total:
  "scores_cover scores (Suc i) \<Longrightarrow> \<exists>tm. tfidf_map_at scores i = Inr tm"
  by (auto simp: scores_cover_def tfidf_map_at_def split: option.splits)

lemma suggestions_ok_dict_set:
  "suggestions_ok S \<Longrightarrow> list_all (\<lambda>s. conf_ok (sc_confidence s)) sl \<Longrightarrow>
   suggestions_ok (dict_set i sl S)"
  by (auto simp: suggestions_ok_def list_all_iff dest!: set_dict_set)

lemma classify_ticket_ok:
  assumes "0 \<le> tfidf_weight A" "\<forall>rule \<in> set (proximity_rules A). 0 \<le> boost rule"
    and "classify_ticket R A scores i ticket = Inr (sl, t')"
  shows "list_all (\<lambda>s. conf_ok (sc_confidence s)) sl"
proof -
  from assms(3) obtain tm where "assemble A (candidate_map R A tm ticket) ticket = Inr (sl, t')"
    by (auto simp: classify_ticket_def split: sum.splits)
  then have sl: "sl = map to_suggestion (emitted_matches A (candidate_map R A tm ticket))"
    by (rule assemble_suggestions)
  have "candidates_ok (candidate_map R A tm ticket)"
    by (rule candidates_ok_candidate_map[OF assms(1,2)])
  then show ?thesis
    unfolding sl by (auto simp: list_all_iff intro!: conf_ok_to_suggestion conf_ok_emitted)
qed

lemma classify_ticket_total:
  assumes "1 \<le> max_suggestions_per_ticket A" "scores_cover scores (Suc i)"
  shows "\<exists>sl t'. classify_ticket R A scores i ticket = Inr (sl, t')"
proof -
  from tfidf_map_at_total[OF assms(2)] obtain tm where "tfidf_map_at scores i = Inr tm" by blast
  then show ?thesis
    using assemble_total[OF assms(1)] by (simp add: classify_ticket_def)
qed

lemma suggest_loop_ok:
  assumes "0 \<le> tfidf_weight A" "\<forall>rule \<in> set (proximity_rules A). 0 \<le> boost rule"
    and "1 \<le> max_suggestions_per_ticket A"
  shows "scores_cover scores (i + length tickets) \<Longrightarrow> suggestions_ok S \<Longrightarrow>
         \<exists>S' T'. suggest_loop R A scores i tickets S = Inr (S', T') \<and> suggestions_ok S'
                  \<and> length T' = length tickets"
proof (induction tickets arbitrary: i S)
  case Nil
  then show ?case by simp
next
  case (Cons t ts)
  have cov: "scores_cover scores (Suc i)"
    using Cons.prems(1) by (auto simp: scores_cover_def split: option.splits)
  from classify_ticket_total[OF assms(3) cov] obtain sl t'
    where c: "classify_ticket R A scores i t = Inr (sl, t')" by blast
  have ok: "list_all (\<lambda>s. conf_ok (sc_confidence s)) sl"
    by (rule classify_ticket_ok[OF assms(1,2) c])
  have "scores_cover scores (Suc i + length ts)" using Cons.prems(1) by simp
  from Cons.IH[OF this suggestions_ok_dict_set[OF Cons.prems(2) ok]]
  obtain S' T' where "suggest_loop R A scores (Suc i) ts (dict_set (ticket_id t) sl S) = Inr (S', T')"
    "suggestions_ok S'" "length T' = length ts" by blast
  then show ?case using c by simp
qed

lemma suggest_categories_ok:
  assumes "0 \<le> tfidf_weight A" "\<forall>rule \<in> set (proximity_rules A). 0 \<le> boost rule"
    and "1 \<le> max_suggestions_per_ticket A"
  shows "\<exists>S T. suggest_categories R A tickets = Inr (S, T) \<and> suggestions_ok S
               \<and> length T = length tickets"
proof -
  have "scores_cover (compute_tfidf_scores R (taxonomy A) tickets) (0 + length tickets)"
    by (auto simp: scores_cover_def dest: length_compute_tfidf_scores split: option.splits)
  moreover have "suggestions_ok []" by (simp add: suggestions_ok_def)
  ultimately show ?thesis
    unfolding suggest_categories_def by (rule suggest_loop_ok[OF assms])
qed

text \<open>
  C6. For every batch, every ticket and every signal, every confidence that the engine
  produces lies in the closed interval from 0.05 to 0.95 and equals its own rounding to
  two decimals: the keyword matcher produces only such confidences; the proximity booster,
  the fuzzy matcher, the TF-IDF matcher and the demoter keep a candidate map of such
  confidences one; so the candidate map of a ticket after all signals is one; the fallback
  match has such a confidence; and \<^verbatim>\<open>suggest_categories\<close> returns, without raising, suggestion
  lists of such confidences only.
\<close>

theorem confidences_bounded_and_rounded:
  "candidates_ok (match_taxonomy tx text token_set)
   \<and> (candidates_ok mm \<longrightarrow>
        candidates_ok (apply_proximity_boosts (TicketAnalyzer tx k thr w) mm tokens)
        \<and> candidates_ok (apply_fuzzy_matches R (TicketAnalyzer tx k thr w) mm tokens token_set)
        \<and> candidates_ok (apply_tfidf_scores (TicketAnalyzer tx k thr w) mm scores)
        \<and> candidates_ok (apply_negative_keywords (TicketAnalyzer tx k thr w) mm tokens text_lower))
   \<and> candidates_ok (candidate_map R (TicketAnalyzer tx k thr w) tfidf_map ticket)
   \<and> (\<forall>m. fallback_match (TicketAnalyzer tx k thr w) = Some m \<longrightarrow> conf_ok (confidence m))
   \<and> (\<exists>S T. suggest_categories R (TicketAnalyzer tx k thr w) tickets = Inr (S, T)
             \<and> suggestions_ok S)"
proof -
  let ?A = "TicketAnalyzer tx k thr w"
  note w = analyzer_weight[of tx k thr w] and b = analyzer_boosts[of tx k thr w]
    and mx = analyzer_max[of tx k thr w]
  have 1: "candidates_ok (match_taxonomy tx text token_set)"
    by (rule candidates_ok_match_taxonomy)
  have 2: "candidates_ok mm \<longrightarrow>
        candidates_ok (apply_proximity_boosts ?A mm tokens)
        \<and> candidates_ok (apply_fuzzy_matches R ?A mm tokens token_set)
        \<and> candidates_ok (apply_tfidf_scores ?A mm scores)
        \<and> candidates_ok (apply_negative_keywords ?A mm tokens text_lower)"
    using candidates_ok_proximity[OF b] candidates_ok_fuzzy candidates_ok_tfidf[OF w]
      candidates_ok_negative by blast
  have 3: "candidates_ok (candidate_map R ?A tfidf_map ticket)"
    by (rule candidates_ok_candidate_map[OF w b])
  have 4: "\<forall>m. fallback_match ?A = Some m \<longrightarrow> conf_ok (confidence m)"
    using conf_ok_fallback by blast
  have 5: "\<exists>S T. suggest_categories R ?A tickets = Inr (S, T) \<and> suggestions_ok S"
    using suggest_categories_ok[OF w b mx, of R tickets] by blast
  from 1 2 3 4 5 show ?thesis by blast
qed


text \<open>
  A candidate map with admissible confidences stays one under the demoter, and the
  fallback match of the taxonomy with \<^verbatim>\<open>General IT > Questions\<close> has an admissible confidence.
\<close>

theorem confidences_bounded_and_rounded_witness:
  "candidates_ok [(vpn_path, vpn_candidate)]
   \<and> candidates_ok (apply_negative_keywords (TicketAnalyzer remote_taxonomy 2 (5 / 100) (35 / 100))
                      [(vpn_path, vpn_candidate)] [''this'', ''is'', ''not'', ''vpn'', ''related'']
                      ''this is not vpn related'')
   \<and> fallback_match (TicketAnalyzer helpdesk_taxonomy 3 (5 / 100) (35 / 100)) \<noteq> None
   \<and> conf_ok (confidence (the (fallback_match
                                 (TicketAnalyzer helpdesk_taxonomy 3 (5 / 100) (35 / 100)))))"
proof -
  have h: "candidates_ok [(vpn_path, vpn_candidate)]" by code_simp
  have f: "fallback_match (TicketAnalyzer helpdesk_taxonomy 3 (5 / 100) (35 / 100)) \<noteq> None"
    by code_simp
  show ?thesis
    using confidences_bounded_and_rounded[where tx = remote_taxonomy
        and mm = "[(vpn_path, vpn_candidate)]" and k = 2 and thr = "5 / 100" and w = "35 / 100"
        and tokens = "[''this'', ''is'', ''not'', ''vpn'', ''related'']"
        and text_lower = "''this is not vpn related''"]
      confidences_bounded_and_rounded[where tx = helpdesk_taxonomy and k = 3
        and thr = "5 / 100" and w = "35 / 100"]
      h f
    by auto
qed

subsection \<open>Ranking\<close>
























subsection \<open>Running the classification again\<close>

lemma map_same_inputs:
  assumes "list_all2 same_inputs ts ts'" "\<And>t t'. same_inputs t t' \<Longrightarrow> f t = f t'"
  shows "map f ts = map f ts'"
  using assms(1) by (induction rule: list_all2_induct) (auto simp: assms(2))

lemma ticket_text_same: "same_inputs t t' \<Longrightarrow> ticket_text t = ticket_text t'"
  by (simp add: same_inputs_def ticket_text_def)

lemma labelled_paths_same: "same_inputs t t' \<Longrightarrow> labelled_paths tx t = labelled_paths tx t'"
  by (simp add: same_inputs_def labelled_paths_def)

lemma candidate_map_same:
  "same_inputs t t' \<Longrightarrow> candidate_map R A tm t = candidate_map R A tm t'"
  by (simp add: candidate_map_def combined_text_def ticket_text_same)

lemma build_tokens_by_path_same:
  assumes "list_all2 same_inputs ts ts'"
  shows "build_tokens_by_path tx (zip ts docs) = build_tokens_by_path tx (zip ts' docs)"
proof -
  have "fold (\<lambda>(ticket, tokens) tbp.
             fold (\<lambda>p tbp'. dict_set p (dict_get_default tbp' p [] @ tokens) tbp')
                  (labelled_paths tx ticket) tbp) (zip ts docs) acc
      = fold (\<lambda>(ticket, tokens) tbp.
             fold (\<lambda>p tbp'. dict_set p (dict_get_default tbp' p [] @ tokens) tbp')
                  (labelled_paths tx ticket) tbp) (zip ts' docs) acc" for acc
    using assms
  proof (induction arbitrary: docs acc rule: list_all2_induct)
    case Nil
    then show ?case by simp
  next
    case (Cons t ts t' ts')
    show ?case
    proof (cases docs)
      case Nil
      then show ?thesis by simp
    next
      case (Cons d ds)
      then show ?thesis
        using Cons.IH[of ds] labelled_paths_same[OF Cons.hyps(1), of tx] by simp
    qed
  qed
  then show ?thesis by (simp add: build_tokens_by_path_def)
qed

lemma build_tfidf_artifacts_same:
  assumes "list_all2 same_inputs ts ts'"
  shows "build_tfidf_artifacts R tx ts = build_tfidf_artifacts R tx ts'"
proof -
  have e: "(ts = []) = (ts' = [])" using assms by (auto dest: list_all2_lengthD)
  have c: "map (\<lambda>ticket. lower (strip (ticket_text ticket))) ts
         = map (\<lambda>ticket. lower (strip (ticket_text ticket))) ts'"
    by (rule map_same_inputs[OF assms]) (simp add: ticket_text_same)
  show ?thesis
    unfolding build_tfidf_artifacts_def c e build_tokens_by_path_same[OF assms] ..
qed

lemma compute_tfidf_scores_same:
  "list_all2 same_inputs ts ts' \<Longrightarrow> compute_tfidf_scores R tx ts = compute_tfidf_scores R tx ts'"
  by (simp add: compute_tfidf_scores_def build_tfidf_artifacts_same)

lemma assemble_again:
  assumes "assemble A mm t = Inr (sl, t1)"
  shows "assemble A mm t1 = Inr (sl, t1) \<and> same_inputs t t1"
  using assms
  by (auto simp: assemble_def Let_def same_inputs_def split: option.splits list.splits)

lemma classify_ticket_again:
  assumes "classify_ticket R A scores i t = Inr (sl, t1)"
  shows "classify_ticket R A scores i t1 = Inr (sl, t1) \<and> same_inputs t t1"
proof -
  from assms obtain tm where tm: "tfidf_map_at scores i = Inr tm"
    and a: "assemble A (candidate_map R A tm t) t = Inr (sl, t1)"
    by (auto simp: classify_ticket_def split: sum.splits)
  from assemble_again[OF a] have s: "same_inputs t t1"
    and a1: "assemble A (candidate_map R A tm t) t1 = Inr (sl, t1)" by simp_all
  from a1 have "assemble A (candidate_map R A tm t1) t1 = Inr (sl, t1)"
    by (simp add: candidate_map_same[OF s])
  then show ?thesis using tm s by (simp add: classify_ticket_def)
qed

lemma suggest_loop_again:
  "suggest_loop R A scores i ts S0 = Inr (S, T) \<Longrightarrow>
   suggest_loop R A scores i T S0 = Inr (S, T) \<and> list_all2 same_inputs ts T"
proof (induction ts arbitrary: i S0 T)
  case Nil
  then show ?case by simp
next
  case (Cons t ts)
  from Cons.prems obtain sl t1 T1 where c: "classify_ticket R A scores i t = Inr (sl, t1)"
    and l: "suggest_loop R A scores (Suc i) ts (dict_set (ticket_id t) sl S0) = Inr (S, T1)"
    and T: "T = t1 # T1"
    by (auto split: sum.splits prod.splits)
  from classify_ticket_again[OF c] have c1: "classify_ticket R A scores i t1 = Inr (sl, t1)"
    and s: "same_inputs t t1" by simp_all
  from Cons.IH[OF l] have l1: "suggest_loop R A scores (Suc i) T1
      (dict_set (ticket_id t) sl S0) = Inr (S, T1)" and ss: "list_all2 same_inputs ts T1"
    by simp_all
  have id: "ticket_id t1 = ticket_id t" using s by (simp add: same_inputs_def)
  show ?case using c1 l1 s ss by (simp add: T id)
qed

text \<open>
  C9. For every batch of tickets, taxonomy model, runtime and parameter setting, when
  \<^verbatim>\<open>suggest_categories\<close> returns the suggestions \<open>S\<close> and leaves the records as \<open>T\<close> (with
  the final fields written), a second run on the records \<open>T\<close> returns the same suggestions
  \<open>S\<close>, with the same confidences and rationales for every ticket, and leaves the records
  as they are.
\<close>

theorem suggest_categories_idempotent:
  assumes "suggest_categories R A tickets = Inr (S, T)"
  shows "suggest_categories R A T = Inr (S, T)"
proof -
  let ?scores = "compute_tfidf_scores R (taxonomy A) tickets"
  from assms have l: "suggest_loop R A ?scores 0 tickets [] = Inr (S, T)"
    by (simp add: suggest_categories_def)
  from suggest_loop_again[OF l] have l1: "suggest_loop R A ?scores 0 T [] = Inr (S, T)"
    and s: "list_all2 same_inputs tickets T" by simp_all
  have "compute_tfidf_scores R (taxonomy A) T = ?scores"
    by (rule compute_tfidf_scores_same[OF s, symmetric])
  then show ?thesis using l1 by (simp add: suggest_categories_def)
qed

text \<open>The batch of the fallback test, classified twice.\<close>

theorem suggest_categories_idempotent_witness:
  "suggest_categories example_runtime (TicketAnalyzer helpdesk_taxonomy 3 (5 / 100) (35 / 100))
     [misc_ticket] =
   Inr ([(400, [questions_suggestion])],
        [misc_ticket\<lparr>final_category := ''General IT'', final_sub_category := ''Questions'',
                       final_item_category := []\<rparr>])
   \<and> suggest_categories example_runtime (TicketAnalyzer helpdesk_taxonomy 3 (5 / 100) (35 / 100))
       [misc_ticket\<lparr>final_category := ''General IT'', final_sub_category := ''Questions'',
                      final_item_category := []\<rparr>] =
     Inr ([(400, [questions_suggestion])],
          [misc_ticket\<lparr>final_category := ''General IT'', final_sub_category := ''Questions'',
                         final_item_category := []\<rparr>])"
proof -
  have h: "suggest_categories example_runtime
      (TicketAnalyzer helpdesk_taxonomy 3 (5 / 100) (35 / 100)) [misc_ticket] =
      Inr ([(400, [questions_suggestion])],
           [misc_ticket\<lparr>final_category := ''General IT'', final_sub_category := ''Questions'',
                          final_item_category := []\<rparr>])"
    by code_simp
  from suggest_categories_idempotent[OF h] h show ?thesis by (intro conjI)
qed

subsection \<open>Alias entries with an unknown target\<close>

lemma parse_alias_entry_ok:
  assumes "alias_entry_ok B entry"
  shows "\<exists>target tp. entry_target entry = Some target \<and> normalise_priority_path target = Inr tp
          \<and> parse_alias_entry B nodes entry =
              Inr (\<lparr>rule_alias = strip (or_empty (entry_alias entry)), target_path = tp,
                    legacy = entry_legacy entry, rule_note = entry_note entry,
                    rule_regex = (if entry_regex entry
                                  then Some (strip (or_empty (entry_alias entry))) else None)\<rparr>,
                   if map_of nodes tp = None
                   then [AliasUnknownPath (strip (or_empty (entry_alias entry))) tp] else [])"
proof -
  from assms obtain target where t: "entry_target entry = Some target" "target \<noteq> PathOther"
      "\<not> target_is_empty target"
    by (auto simp: alias_entry_ok_def split: option.splits)
  then obtain tp where n: "normalise_priority_path target = Inr tp"
    by (cases target) (auto simp: normalise_priority_path_def)
  show ?thesis
    using assms t n by (auto simp: parse_alias_entry_def alias_entry_ok_def Let_def)
qed

lemma parse_alias_rules_ok:
  assumes "list_all (alias_entry_ok B) entries"
  shows "\<exists>rules' ws'. parse_alias_rules B entries nodes rules ws = Inr (rules', ws')
          \<and> set rules \<subseteq> set rules' \<and> set ws \<subseteq> set ws'
          \<and> (\<forall>entry \<in> set entries. \<forall>r w. parse_alias_entry B nodes entry = Inr (r, w)
                \<longrightarrow> r \<in> set rules' \<and> set w \<subseteq> set ws')"
  using assms
proof (induction entries arbitrary: rules ws)
  case Nil
  then show ?case by simp
next
  case (Cons e es)
  from Cons.prems have e: "alias_entry_ok B e" and es: "list_all (alias_entry_ok B) es" by simp_all
  from parse_alias_entry_ok[OF e, of nodes] obtain r w
    where p: "parse_alias_entry B nodes e = Inr (r, w)" by blast
  from Cons.IH[OF es, of "rules @ [r]" "ws @ w"] obtain rules' ws'
    where ih: "parse_alias_rules B es nodes (rules @ [r]) (ws @ w) = Inr (rules', ws')"
      "set (rules @ [r]) \<subseteq> set rules'" "set (ws @ w) \<subseteq> set ws'"
      "\<forall>entry \<in> set es. \<forall>r w. parse_alias_entry B nodes entry = Inr (r, w)
          \<longrightarrow> r \<in> set rules' \<and> set w \<subseteq> set ws'"
    by blast
  show ?case using p ih by auto
qed

lemma build_priority_map_ok:
  assumes "list_all (\<lambda>v. v \<noteq> PathOther) entries"
  shows "\<exists>pm' ws'. build_priority_map entries i nodes pm ws = Inr (pm', ws') \<and> set ws \<subseteq> set ws'"
  using assms
proof (induction entries arbitrary: i pm ws)
  case Nil
  then show ?case by simp
next
  case (Cons e es)
  from Cons.prems have e: "e \<noteq> PathOther" and es: "list_all (\<lambda>v. v \<noteq> PathOther) es" by simp_all
  from e obtain p where n: "normalise_priority_path e = Inr p"
    by (cases e) (auto simp: normalise_priority_path_def)
  show ?case
  proof (cases "p = []")
    case True
    then show ?thesis using n Cons.IH[OF es, of "i + 1" pm ws] by simp
  next
    case False
    from Cons.IH[OF es, of "i + 1" "dict_set p i pm"
        "ws @ (if map_of nodes p = None then [PriorityUnknownPath e] else [])"]
    show ?thesis using n False by auto
  qed
qed

text \<open>
  C8. For every configuration that is valid apart from the targets of its alias entries
  (the tree is not empty and \<^verbatim>\<open>_build_node\<close> accepts it, every alias entry has a non-empty
  alias, a target and, if flagged as a regular expression, an alias that compiles, every
  priority entry is a sequence or a string), and every entry of its alias list whose
  target path is not a node of the tree: \<^verbatim>\<open>build_taxonomy_model\<close> returns a model, the alias
  rule of the entry is among the alias rules of the model, and the unknown target is
  logged as a warning.
\<close>

theorem unknown_alias_target_is_a_warning:
  assumes "tree \<noteq> []"
    and "build_children B tree [] mx [] [] = Inr (roots, nodes, rules)"
    and "list_all (alias_entry_ok B) alias_entries"
    and "list_all (\<lambda>v. v \<noteq> PathOther) priority_order"
    and "entry \<in> set alias_entries"
    and "entry_target entry = Some target"
    and "normalise_priority_path target = Inr tp"
    and "map_of nodes tp = None"
  shows "\<exists>model warnings.
           build_taxonomy_model B
             (Some \<lparr>cfg_tree = Some tree, cfg_aliases = alias_entries,
                    cfg_priority_order = priority_order\<rparr>) available_taxonomy mx
             = Inr (model, warnings)
           \<and> nodes_by_path model = nodes
           \<and> \<lparr>rule_alias = strip (or_empty (entry_alias entry)), target_path = tp,
               legacy = entry_legacy entry, rule_note = entry_note entry,
               rule_regex = (if entry_regex entry
                             then Some (strip (or_empty (entry_alias entry))) else None)\<rparr>
             \<in> set (alias_rules model)
           \<and> AliasUnknownPath (strip (or_empty (entry_alias entry))) tp \<in> set warnings"
proof -
  let ?a = "strip (or_empty (entry_alias entry))"
  let ?r = "\<lparr>rule_alias = ?a, target_path = tp,
               legacy = entry_legacy entry, rule_note = entry_note entry,
               rule_regex = (if entry_regex entry then Some ?a else None)\<rparr>"
  have ok: "alias_entry_ok B entry" using assms(3,5) by (auto simp: list_all_iff)
  from parse_alias_entry_ok[OF ok, of nodes] assms(6,7,8)
  have pe: "parse_alias_entry B nodes entry = Inr (?r, [AliasUnknownPath ?a tp])" by auto
  from parse_alias_rules_ok[OF assms(3), of nodes rules "[]"] obtain rules' ws1
    where pr: "parse_alias_rules B alias_entries nodes rules [] = Inr (rules', ws1)"
      and all: "\<forall>entry \<in> set alias_entries. \<forall>r w. parse_alias_entry B nodes entry = Inr (r, w)
                \<longrightarrow> r \<in> set rules' \<and> set w \<subseteq> set ws1"
    by blast
  from all assms(5) pe have r: "?r \<in> set rules'" and w: "AliasUnknownPath ?a tp \<in> set ws1"
    by auto
  from build_priority_map_ok[OF assms(4), of 0 nodes "[]" ws1] obtain pm ws2
    where bp: "build_priority_map priority_order 0 nodes [] ws1 = Inr (pm, ws2)"
      and sub: "set ws1 \<subseteq> set ws2"
    by blast
  have "build_taxonomy_model B
          (Some \<lparr>cfg_tree = Some tree, cfg_aliases = alias_entries, cfg_priority_order = priority_order\<rparr>)
          available_taxonomy mx
        = Inr (\<lparr>nodes_by_path = nodes, priority_map = pm, alias_rules = rules', max_depth = mx\<rparr>,
               ws2 @ metadata_warnings_opt available_taxonomy nodes)"
    using assms(1,2) pr bp by (simp add: build_taxonomy_model_def)
  then show ?thesis using r w sub by auto
qed

text \<open>
  A tree with the one node \<^verbatim>\<open>Remote Access\<close> and the alias \<^verbatim>\<open>tunnel\<close> for the path
  \<^verbatim>\<open>Remote Access > VPN\<close>, which is not in the tree.
\<close>

theorem unknown_alias_target_is_a_warning_witness:
  "remote_tree \<noteq> []
   \<and> build_children example_builder remote_tree [] 3 [] [] =
       Inr ([TaxonomyNode ''Remote Access'' [''Remote Access''] [''Remote Access'']
               [''remote access''] [] [] []],
            [([''Remote Access''],
              TaxonomyNode ''Remote Access'' [''Remote Access''] [''Remote Access'']
                [''remote access''] [] [] [])],
            [])
   \<and> list_all (alias_entry_ok example_builder) [tunnel_alias]
   \<and> normalise_priority_path (PathStr ''Remote Access > VPN'') = Inr [''Remote Access'', ''VPN'']
   \<and> build_taxonomy_model example_builder
        (Some \<lparr>cfg_tree = Some remote_tree, cfg_aliases = [tunnel_alias],
               cfg_priority_order = []\<rparr>) None 3 =
      Inr (\<lparr>nodes_by_path =
              [([''Remote Access''],
                TaxonomyNode ''Remote Access'' [''Remote Access''] [''Remote Access'']
                  [''remote access''] [] [] [])],
            priority_map = [],
            alias_rules = [\<lparr>rule_alias = ''tunnel'', target_path = [''Remote Access'', ''VPN''],
                            legacy = True, rule_note = None, rule_regex = None\<rparr>],
            max_depth = 3\<rparr>,
           [AliasUnknownPath ''tunnel'' [''Remote Access'', ''VPN'']])"
proof -
  let ?n = "TaxonomyNode ''Remote Access'' [''Remote Access''] [''Remote Access'']
              [''remote access''] [] [] []"
  have h1: "remote_tree \<noteq> []" by (simp add: remote_tree_def)
  have h2: "build_children example_builder remote_tree [] 3 [] [] =
       Inr ([?n], [([''Remote Access''], ?n)], [])" by code_simp
  have h3: "list_all (alias_entry_ok example_builder) [tunnel_alias]" by code_simp
  have h4: "list_all (\<lambda>v. v \<noteq> PathOther) []" by simp
  have h5: "tunnel_alias \<in> set [tunnel_alias]" by simp
  have h6: "entry_target tunnel_alias = Some (PathStr ''Remote Access > VPN'')"
    by (simp add: tunnel_alias_def)
  have h7: "normalise_priority_path (PathStr ''Remote Access > VPN'')
            = Inr [''Remote Access'', ''VPN'']" by code_simp
  have h8: "map_of [([''Remote Access''], ?n)] [''Remote Access'', ''VPN''] = None" by simp
  have v: "build_taxonomy_model example_builder
        (Some \<lparr>cfg_tree = Some remote_tree, cfg_aliases = [tunnel_alias],
               cfg_priority_order = []\<rparr>) None 3 =
      Inr (\<lparr>nodes_by_path = [([''Remote Access''], ?n)],
            priority_map = [],
            alias_rules = [\<lparr>rule_alias = ''tunnel'', target_path = [''Remote Access'', ''VPN''],
                            legacy = True, rule_note = None, rule_regex = None\<rparr>],
            max_depth = 3\<rparr>,
           [AliasUnknownPath ''tunnel'' [''Remote Access'', ''VPN'']])" by code_simp
  note w = unknown_alias_target_is_a_warning[OF h1 h2 h3 h4 h5 h6 h7 h8, of None]
  from w h1 h2 h3 h7 v show ?thesis by (intro conjI)
qed

end
